theory Spec2Isabelle
  imports Main "HOL-Library.Word"
begin

section \<open>Strings as the source computes them\<close>

text \<open>
  A JavaScript string is modelled as a \<^typ>\<open>string\<close>: the list of its bytes in UTF-8.
  All characters the source tests or produces are ASCII; every byte of a non-ASCII
  character is at least 0x80 and is treated, like the character itself in the source,
  as "not a letter, not a digit, not special".
\<close>

definition isUpper :: "char \<Rightarrow> bool" where
  "isUpper c = (65 \<le> (of_char c :: nat) \<and> (of_char c :: nat) \<le> 90)"

definition isLower :: "char \<Rightarrow> bool" where
  "isLower c = (97 \<le> (of_char c :: nat) \<and> (of_char c :: nat) \<le> 122)"

definition isDigit :: "char \<Rightarrow> bool" where
  "isDigit c = (48 \<le> (of_char c :: nat) \<and> (of_char c :: nat) \<le> 57)"

definition isAlnum :: "char \<Rightarrow> bool" where
  \<comment> \<open>the character class \<^verbatim>\<open>[a-zA-Z0-9]\<close>\<close>
  "isAlnum c = (isLower c \<or> isUpper c \<or> isDigit c)"

definition toUpperCase :: "char \<Rightarrow> char" where
  "toUpperCase c = (if isLower c then char_of ((of_char c :: nat) - 32) else c)"

text \<open>\<^verbatim>\<open>String(n)\<close> for a non-negative integer counter or index: its decimal digits.\<close>

definition digit :: "nat \<Rightarrow> char" where
  "digit d = char_of (48 + d)"

fun dec :: "nat \<Rightarrow> string" where
  "dec n = (if n < 10 then [digit n] else dec (n div 10) @ [digit (n mod 10)])"

declare dec.simps [simp del]

text \<open>\<^verbatim>\<open>Array.prototype.join\<close> on an array of strings.\<close>

fun join :: "string \<Rightarrow> string list \<Rightarrow> string" where
  "join sep [] = []"
| "join sep [x] = x"
| "join sep (x # y # ys) = x @ sep @ join sep (y # ys)"

text \<open>
  \<^verbatim>\<open>JSON.stringify\<close> of a string: the quoted string, with the quote, the backslash and
  the control characters below 0x20 escaped.
\<close>

definition hexDigit :: "nat \<Rightarrow> char" where
  "hexDigit d = (if d < 10 then char_of (48 + d) else char_of (87 + d))"

definition jsonEscape :: "char \<Rightarrow> string" where
  "jsonEscape c =
     (let n = (of_char c :: nat) in
      if n = 0x22 then [CHR 0x5C, CHR 0x22]
      else if n = 0x5C then [CHR 0x5C, CHR 0x5C]
      else if n = 8 then [CHR 0x5C, CHR ''b'']
      else if n = 12 then [CHR 0x5C, CHR ''f'']
      else if n = 10 then [CHR 0x5C, CHR ''n'']
      else if n = 13 then [CHR 0x5C, CHR ''r'']
      else if n = 9 then [CHR 0x5C, CHR ''t'']
      else if n < 0x20 then [CHR 0x5C, CHR ''u'', CHR ''0'', CHR ''0'', hexDigit (n div 16), hexDigit (n mod 16)]
      else [c])"

definition jsonString :: "string \<Rightarrow> string" where
  "jsonString s = [CHR 0x22] @ concat (map jsonEscape s) @ [CHR 0x22]"

subsection \<open>The helpers of zod-to-baml.ts\<close>

text \<open>
  \<^verbatim>\<open>toPascal\<close>: every run of characters outside \<^verbatim>\<open>[a-zA-Z0-9]\<close> becomes one space, the
  string is split at the spaces, the empty pieces are dropped, the first character of
  each piece is upper-cased and the pieces are concatenated.
\<close>

function replaceNonAlnum :: "string \<Rightarrow> string" where
  "replaceNonAlnum [] = []"
| "replaceNonAlnum (c # cs) =
     (if isAlnum c then c # replaceNonAlnum cs
      else CHR '' '' # replaceNonAlnum (dropWhile (\<lambda>x. \<not> isAlnum x) cs))"
  by pat_completeness auto
termination
  by (relation "measure length") (auto simp: length_dropWhile_le less_Suc_eq_le)

fun split :: "char \<Rightarrow> string \<Rightarrow> string list" where
  "split sep [] = [[]]"
| "split sep (c # cs) =
     (if c = sep then [] # split sep cs
      else (case split sep cs of [] \<Rightarrow> [[c]] | w # ws \<Rightarrow> (c # w) # ws))"

definition capitalise :: "string \<Rightarrow> string" where
  "capitalise w = (case w of [] \<Rightarrow> [] | c # cs \<Rightarrow> toUpperCase c # cs)"

definition toPascal :: "string \<Rightarrow> string" where
  "toPascal s =
     concat (map capitalise (filter (\<lambda>w. w \<noteq> []) (split CHR '' '' (replaceNonAlnum s))))"

definition isIdentifier :: "string \<Rightarrow> bool" where
  \<comment> \<open>\<^verbatim>\<open>/^[A-Za-z_][A-Za-z0-9_]*$/\<close>\<close>
  "isIdentifier s =
     (case s of
        [] \<Rightarrow> False
      | c # cs \<Rightarrow> (isUpper c \<or> isLower c \<or> c = CHR ''_'')
                 \<and> list_all (\<lambda>x. isAlnum x \<or> x = CHR ''_'') cs)"

definition parenIfUnion :: "string \<Rightarrow> string" where
  "parenIfUnion expr = (if CHR ''|'' \<in> set expr then ''('' @ expr @ '')'' else expr)"

section \<open>Schema nodes\<close>

text \<open>
  A schema is a Zod object; the source looks at it through \<^verbatim>\<open>getKind\<close> (the name of its
  kind) and through the properties of its \<^verbatim>\<open>_def\<close>. A node of the model is the kind
  together with the properties the source reads for that kind, each one resolved the way
  the source resolves it:
  \<^item> \<open>ZodObject\<close>: the entries of \<^verbatim>\<open>def.shape\<close> (called first when it is a function), in
    the order of \<^verbatim>\<open>Object.keys\<close>; an entry is the key, the field's schema and the
    \<^verbatim>\<open>description\<close> property of the field's schema;
  \<^item> \<open>ZodNumber\<close>: the \<^verbatim>\<open>kind\<close> of every entry of \<^verbatim>\<open>def.checks\<close>;
  \<^item> \<open>ZodLiteral\<close>: \<^verbatim>\<open>def.value\<close>;
  \<^item> \<open>ZodArray\<close>: the element schema found under \<^verbatim>\<open>element\<close>, \<^verbatim>\<open>type\<close>, \<^verbatim>\<open>items\<close>,
    \<^verbatim>\<open>item\<close> or \<^verbatim>\<open>itemType\<close> (\<open>None\<close> when none is there), and the minimal length
    of the array, which the source never reads;
  \<^item> \<open>ZodEnum\<close>: \<^verbatim>\<open>def.values ?? def.options ?? base.options\<close> when that is an array,
    \<open>None\<close> when it is not;
  \<^item> \<open>ZodNativeEnum\<close>: \<^verbatim>\<open>Object.values(def.values ?? {})\<close>;
  \<^item> \<open>ZodRecord\<close>: \<^verbatim>\<open>def.keyType\<close> (\<open>None\<close> when absent) and \<^verbatim>\<open>def.valueType\<close>;
  \<^item> \<open>ZodUnion\<close>: \<^verbatim>\<open>def.options\<close>;
  \<^item> \<open>ZodLazy\<close>: the schema \<^verbatim>\<open>def.getter()\<close> returns;
  \<^item> the wrappers \<open>ZodOptional\<close>, \<open>ZodNullable\<close>, \<open>ZodDefault\<close>, \<open>ZodCatch\<close>,
    \<open>ZodReadonly\<close> (inner schema under \<^verbatim>\<open>innerType\<close>), \<open>ZodBranded\<close> (under
    \<^verbatim>\<open>type\<close>) and \<open>ZodEffects\<close> (under \<^verbatim>\<open>schema\<close>): the inner schema, \<open>None\<close>
    when the node has none; \<open>ZodPipeline\<close>: \<^verbatim>\<open>def.in\<close> and \<^verbatim>\<open>def.out\<close>;
  \<^item> \<open>ZodOther k inner\<close>: a node of any other kind \<open>k\<close>, none of the names above
    (\<^verbatim>\<open>ZodAny\<close>, \<^verbatim>\<open>ZodDate\<close>, \<^verbatim>\<open>ZodPromise\<close>, ..., or \<^verbatim>\<open>Unknown\<close> when \<^verbatim>\<open>getKind\<close>
    finds no name), with the schema found under \<^verbatim>\<open>innerType\<close>, \<^verbatim>\<open>schema\<close>, \<^verbatim>\<open>type\<close>,
    \<^verbatim>\<open>out\<close> or \<^verbatim>\<open>output\<close>, if any.

  Every node is an object with a \<^verbatim>\<open>_def\<close>, as the type \<^verbatim>\<open>z.ZodType\<close> of the source says.

  A value of the datatype is a finite tree: a lazy schema that refers to itself is not
  a value of the model.
\<close>

datatype literal =
    LitString string
  | LitNumber bool string  \<comment> \<open>\<^verbatim>\<open>Number.isInteger(val)\<close> and \<^verbatim>\<open>JSON.stringify(val)\<close>\<close>
  | LitBoolean bool
  | LitNull
  | LitUndefined           \<comment> \<open>\<^verbatim>\<open>undefined\<close> or a symbol\<close>
  | LitBigInt

datatype enumValue = EString string | ENumber

datatype zod =
    ZodObject "(string \<times> zod \<times> string option) list"
  | ZodString
  | ZodNumber "string list"
  | ZodBoolean
  | ZodLiteral literal
  | ZodNull
  | ZodArray "zod option" "nat option"
  | ZodEnum "string list option"
  | ZodNativeEnum "enumValue list"
  | ZodRecord "zod option" zod
  | ZodUnion "zod list"
  | ZodLazy zod
  | ZodOptional "zod option"
  | ZodNullable "zod option"
  | ZodDefault "zod option"
  | ZodCatch "zod option"
  | ZodReadonly "zod option"
  | ZodBranded "zod option"
  | ZodEffects "zod option"
  | ZodPipeline "zod option" "zod option"
  | ZodOther string "zod option"

fun getKind :: "zod \<Rightarrow> string" where
  "getKind (ZodObject _) = ''ZodObject''"
| "getKind ZodString = ''ZodString''"
| "getKind (ZodNumber _) = ''ZodNumber''"
| "getKind ZodBoolean = ''ZodBoolean''"
| "getKind (ZodLiteral _) = ''ZodLiteral''"
| "getKind ZodNull = ''ZodNull''"
| "getKind (ZodArray _ _) = ''ZodArray''"
| "getKind (ZodEnum _) = ''ZodEnum''"
| "getKind (ZodNativeEnum _) = ''ZodNativeEnum''"
| "getKind (ZodRecord _ _) = ''ZodRecord''"
| "getKind (ZodUnion _) = ''ZodUnion''"
| "getKind (ZodLazy _) = ''ZodLazy''"
| "getKind (ZodOptional _) = ''ZodOptional''"
| "getKind (ZodNullable _) = ''ZodNullable''"
| "getKind (ZodDefault _) = ''ZodDefault''"
| "getKind (ZodCatch _) = ''ZodCatch''"
| "getKind (ZodReadonly _) = ''ZodReadonly''"
| "getKind (ZodBranded _) = ''ZodBranded''"
| "getKind (ZodEffects _) = ''ZodEffects''"
| "getKind (ZodPipeline _ _) = ''ZodPipeline''"
| "getKind (ZodOther k _) = k"

subsection \<open>unwrapAll\<close>

record unwrapped =
  base :: zod
  optional :: bool
  nullable :: bool

text \<open>
  \<^verbatim>\<open>a ?? b\<close> on an optional property: the first one that is there.
\<close>

definition orElse :: "'a option \<Rightarrow> 'a \<Rightarrow> 'a" where
  "orElse a b = (case a of Some x \<Rightarrow> x | None \<Rightarrow> b)"

text \<open>
  The loop of \<^verbatim>\<open>unwrapAll\<close>; the first argument is the number of iterations left of
  the fifty. When they are used up the loop ends and the function returns what it has:
  nothing is thrown.
\<close>

fun unwrapLoop :: "nat \<Rightarrow> zod \<Rightarrow> bool \<Rightarrow> bool \<Rightarrow> unwrapped" where
  "unwrapLoop 0 schema opt nul = \<lparr>base = schema, optional = opt, nullable = nul\<rparr>"
| "unwrapLoop (Suc n) schema opt nul =
     (case schema of
        ZodOptional inner \<Rightarrow> unwrapLoop n (orElse inner schema) True nul
      | ZodNullable inner \<Rightarrow> unwrapLoop n (orElse inner schema) opt True
      | ZodDefault inner \<Rightarrow> unwrapLoop n (orElse inner schema) opt nul
      | ZodCatch inner \<Rightarrow> unwrapLoop n (orElse inner schema) opt nul
      | ZodReadonly inner \<Rightarrow> unwrapLoop n (orElse inner schema) opt nul
      | ZodBranded inner \<Rightarrow> unwrapLoop n (orElse inner schema) opt nul
      | ZodEffects inner \<Rightarrow> unwrapLoop n (orElse inner schema) opt nul
      | ZodPipeline inn out \<Rightarrow> unwrapLoop n (orElse out (orElse inn schema)) opt nul
      | _ \<Rightarrow> \<lparr>base = schema, optional = opt, nullable = nul\<rparr>)"

definition unwrapAll :: "zod \<Rightarrow> unwrapped" where
  "unwrapAll s = unwrapLoop 50 s False False"

record modifiers = unwrapped +
  description :: "string option"

text \<open>
  \<^verbatim>\<open>unwrapModifiers\<close>; the second argument is \<^verbatim>\<open>s.description\<close>.
\<close>

definition unwrapModifiers :: "zod \<Rightarrow> string option \<Rightarrow> modifiers" where
  "unwrapModifiers s d =
     (let u = unwrapAll s
      in \<lparr>base = base u, optional = optional u, nullable = nullable u, description = d\<rparr>)"

section \<open>The translation context\<close>

record ClassField =
  f_name :: string
  f_type :: string
  f_optional :: bool
  f_description :: "string option"

record ClassType =
  c_name :: string
  c_fields :: "ClassField list"

text \<open>
  A JavaScript \<^verbatim>\<open>Map\<close> is iterated in the order in which its keys were first set, so
  it is an association list: \<open>mapSet\<close> replaces the value of a key in place and appends
  a new key at the end.
\<close>

fun mapSet :: "'k \<Rightarrow> 'v \<Rightarrow> ('k \<times> 'v) list \<Rightarrow> ('k \<times> 'v) list" where
  "mapSet k v [] = [(k, v)]"
| "mapSet k v ((k', v') # m) = (if k' = k then (k, v) # m else (k', v') # mapSet k v m)"

definition mapGet :: "'k \<Rightarrow> ('k \<times> 'v) list \<Rightarrow> 'v option" where
  "mapGet k m = map_of m k"

record Ctx =
  types :: "(string \<times> ClassType) list"
  order :: "string list"
  enums :: "(string \<times> string list) list"
  aliases :: "(string \<times> string) list"
  counter :: nat

text \<open>
  The decimal digits of a number determine it, so only finitely many of the names
  \<^verbatim>\<open>clean + n\<close> are among finitely many keys: the loop below ends.
\<close>

definition undec :: "string \<Rightarrow> nat" where
  "undec s = foldl (\<lambda>a c. 10 * a + ((of_char c :: nat) - 48)) 0 s"

lemma undec_dec: "undec (dec n) = n"
proof (induction n rule: dec.induct)
  case (1 n)
  show ?case
  proof (cases "n < 10")
    case True
    then show ?thesis
      by (subst dec.simps) (simp add: undec_def digit_def)
  next
    case False
    have "n mod 10 < 10" by simp
    then have d: "(of_char (digit (n mod 10)) :: nat) - 48 = n mod 10"
      by (simp add: digit_def)
    from False 1 have "undec (dec (n div 10)) = n div 10" by simp
    with False d show ?thesis
      by (subst dec.simps) (simp add: undec_def)
  qed
qed

lemma inj_dec: "inj dec"
  by (rule inj_on_inverseI [of _ undec]) (rule undec_dec)

lemma finite_suffixed: "finite {n. c < n \<and> clean @ dec n \<in> set taken}"
proof -
  have "inj (\<lambda>n. clean @ dec n)"
    using inj_dec by (auto simp: inj_def)
  then have "finite ((\<lambda>n. clean @ dec n) -` set taken)"
    by (intro finite_vimageI) simp_all
  moreover have "{n. c < n \<and> clean @ dec n \<in> set taken} \<subseteq> (\<lambda>n. clean @ dec n) -` set taken"
    by auto
  ultimately show ?thesis
    by (rule rev_finite_subset)
qed

lemma suffixed_step:
  "{n. c < n \<and> clean @ dec n \<in> set taken} =
     (if clean @ dec (Suc c) \<in> set taken then {Suc c} else {})
       \<union> {n. Suc c < n \<and> clean @ dec n \<in> set taken}"
proof -
  have "c < n \<longleftrightarrow> n = Suc c \<or> Suc c < n" for n
    by arith
  then have "{n. c < n \<and> clean @ dec n \<in> set taken}
          = {n. n = Suc c \<and> clean @ dec n \<in> set taken}
              \<union> {n. Suc c < n \<and> clean @ dec n \<in> set taken}"
    by blast
  moreover have "{n. n = Suc c \<and> clean @ dec n \<in> set taken}
          = (if clean @ dec (Suc c) \<in> set taken then {Suc c} else {})"
    by auto
  ultimately show ?thesis
    by simp
qed

text \<open>
  The loop \<^verbatim>\<open>while (has(name)) name = clean + ++ctx.counter\<close> of \<^verbatim>\<open>uniqueClassName\<close> and
  \<^verbatim>\<open>uniqueAliasOrEnumName\<close>, over the keys that are taken; it returns the name and the
  counter.
\<close>

function freshName :: "string list \<Rightarrow> string \<Rightarrow> string \<Rightarrow> nat \<Rightarrow> string \<times> nat" where
  "freshName taken clean name c =
     (if name \<in> set taken then freshName taken clean (clean @ dec (Suc c)) (Suc c)
      else (name, c))"
  by pat_completeness auto
termination
proof (relation "measure (\<lambda>(taken, clean, name, c).
          (if name \<in> set taken then 1 else 0)
            + card {n. c < n \<and> clean @ dec n \<in> set taken})")
  show "wf (measure (\<lambda>(taken, clean, name, c).
          (if name \<in> set taken then 1 else 0)
            + card {n. c < n \<and> clean @ dec n \<in> set taken}))"
    by simp
next
  fix taken :: "string list" and clean name :: string and c :: nat
  assume "name \<in> set taken"
  let ?B = "{n. Suc c < n \<and> clean @ dec n \<in> set taken}"
  have fin: "finite ?B" by (rule finite_suffixed)
  have "card {n. c < n \<and> clean @ dec n \<in> set taken}
          = (if clean @ dec (Suc c) \<in> set taken then 1 else 0) + card ?B"
    using fin by (subst suffixed_step) simp
  with \<open>name \<in> set taken\<close>
  show "((taken, clean, clean @ dec (Suc c), Suc c), (taken, clean, name, c))
          \<in> measure (\<lambda>(taken, clean, name, c).
              (if name \<in> set taken then 1 else 0)
                + card {n. c < n \<and> clean @ dec n \<in> set taken})"
    by simp
qed

declare freshName.simps [simp del]

definition uniqueClassName :: "Ctx \<Rightarrow> string \<Rightarrow> string \<times> Ctx" where
  "uniqueClassName ctx b =
     (let clean = toPascal b;
          (name, c) = freshName (map fst (types ctx)) clean clean (counter ctx)
      in (name, ctx\<lparr>counter := c\<rparr>))"

definition uniqueAliasOrEnumName :: "Ctx \<Rightarrow> string \<Rightarrow> string \<times> Ctx" where
  "uniqueAliasOrEnumName ctx b =
     (let clean = toPascal b;
          (name, c) = freshName (map fst (enums ctx) @ map fst (aliases ctx)) clean clean (counter ctx)
      in (name, ctx\<lparr>counter := c\<rparr>))"

section \<open>toBamlType\<close>

text \<open>
  A \<^verbatim>\<open>throw new Error(msg)\<close> of the source is the value \<open>Error msg\<close>; a property read
  on \<^verbatim>\<open>undefined\<close> and a \<^verbatim>\<open>JSON.stringify\<close> of a BigInt are \<open>TypeError\<close>s of the
  runtime. A function that can throw returns \<open>Inl\<close> of the error.

  The source writes to the console when the environment variable \<^verbatim>\<open>DEBUG_BAML\<close> is
  set. The console is the list of the entries written so far (of an entry for an array,
  the kind of the element is kept), and the flag is the first argument of the functions
  that read it.
\<close>

datatype error = Error string | TypeError string

datatype logEntry = ArrayInner string | GeneratedBaml string

text \<open>
  \<^verbatim>\<open>hintName || d\<close> and \<^verbatim>\<open>hintName ? hintName + suffix : undefined\<close>: a hint that is
  \<^verbatim>\<open>undefined\<close> or the empty string counts as absent.
\<close>

definition orDefault :: "string option \<Rightarrow> string \<Rightarrow> string" where
  "orDefault hintName d = (case hintName of None \<Rightarrow> d | Some h \<Rightarrow> if h = [] then d else h)"

definition withSuffix :: "string option \<Rightarrow> string \<Rightarrow> string option" where
  "withSuffix hintName suffix =
     (case hintName of None \<Rightarrow> None | Some h \<Rightarrow> if h = [] then None else Some (h @ suffix))"

text \<open>The values of a native enum that are strings, in their order.\<close>

definition enumStrings :: "enumValue list \<Rightarrow> string list" where
  "enumStrings vs = concat (map (\<lambda>v. case v of EString s \<Rightarrow> [s] | ENumber \<Rightarrow> []) vs)"

text \<open>
  Unwrapping never makes a schema larger; the translator recurses into parts of the
  unwrapped schema, which is how it terminates on every (finite) schema.
\<close>

lemma size_unwrapLoop: "size (base (unwrapLoop n s opt nul)) \<le> size s"
proof (induction n arbitrary: s opt nul)
  case 0
  then show ?case by simp
next
  case (Suc n)
  show ?case
    by (cases s) (auto simp: orElse_def split: option.splits intro!: le_trans [OF Suc.IH])
qed

lemma size_unwrapAll: "size (base (unwrapAll s)) \<le> size s"
  by (simp add: unwrapAll_def size_unwrapLoop)

text \<open>
  What the default branch of \<^verbatim>\<open>toBamlType\<close> finds under
  \<^verbatim>\<open>innerType ?? schema ?? type ?? out ?? output\<close>: the inner schema of a wrapper that is
  still there after \<^verbatim>\<open>unwrapAll\<close> (for a Pipeline its output side only) or of a node of
  another kind.
\<close>

fun defaultInner :: "zod \<Rightarrow> zod option" where
  "defaultInner (ZodOptional inner) = inner"
| "defaultInner (ZodNullable inner) = inner"
| "defaultInner (ZodDefault inner) = inner"
| "defaultInner (ZodCatch inner) = inner"
| "defaultInner (ZodReadonly inner) = inner"
| "defaultInner (ZodBranded inner) = inner"
| "defaultInner (ZodEffects inner) = inner"
| "defaultInner (ZodPipeline inn out) = out"
| "defaultInner (ZodOther k inner) = inner"
| "defaultInner _ = None"

lemma size_defaultInner: "defaultInner b = Some i \<Longrightarrow> size i < size b"
  by (cases b) auto

lemma base_le: "b = base (unwrapAll schema) \<Longrightarrow> size b \<le> size schema"
  by (simp add: size_unwrapAll)

lemma below_base: "size x < size (base (unwrapAll schema)) \<Longrightarrow> size x < size schema"
  using size_unwrapAll [of schema] by simp

lemma size_orElse: "size (orElse x ZodString) \<le> size_option size x"
  by (cases x) (simp_all add: orElse_def)

text \<open>
  \<^verbatim>\<open>toBamlType\<close>, with the loop over the keys of an object (\<open>objectFields\<close>: the name of the
  class, the entries still to do and the fields pushed so far) and the map over the
  options of a union (\<open>unionOptions\<close>: the hint and the index of the next option). The
  context and the console are passed along and returned; an error ends the translation.
\<close>

type_synonym console = "logEntry list"

function toBamlType ::
    "bool \<Rightarrow> zod \<Rightarrow> Ctx \<Rightarrow> console \<Rightarrow> string option \<Rightarrow> error + (string \<times> Ctx \<times> console)"
  and objectFields ::
    "bool \<Rightarrow> string \<Rightarrow> (string \<times> zod \<times> string option) list \<Rightarrow> Ctx \<Rightarrow> console
       \<Rightarrow> ClassField list \<Rightarrow> error + (ClassField list \<times> Ctx \<times> console)"
  and unionOptions ::
    "bool \<Rightarrow> string option \<Rightarrow> nat \<Rightarrow> zod list \<Rightarrow> Ctx \<Rightarrow> console
       \<Rightarrow> error + (string list \<times> Ctx \<times> console)"
where
  "toBamlType dbg schema ctx con hintName =
     (let b = base (unwrapAll schema) in
      case b of
        ZodObject shape \<Rightarrow>
          (let (name, ctx1) = uniqueClassName ctx (orDefault hintName ''Obj'') in
           case objectFields dbg name shape ctx1 con [] of
             Inl e \<Rightarrow> Inl e
           | Inr (flds, ctx2, con2) \<Rightarrow>
               Inr (name,
                    ctx2\<lparr>types := mapSet name \<lparr>c_name = name, c_fields = flds\<rparr> (types ctx2),
                         order := order ctx2 @ [name]\<rparr>,
                    con2))
      | ZodString \<Rightarrow> Inr (''string'', ctx, con)
      | ZodNumber checks \<Rightarrow>
          (let isInt = list_ex (\<lambda>c. c = ''int'') checks
           in Inr (if isInt then ''int'' else ''float'', ctx, con))
      | ZodBoolean \<Rightarrow> Inr (''bool'', ctx, con)
      | ZodLiteral val \<Rightarrow>
          (case val of
             LitString _ \<Rightarrow> Inr (''string'', ctx, con)
           | LitNumber isInteger _ \<Rightarrow> Inr (if isInteger then ''int'' else ''float'', ctx, con)
           | LitBoolean _ \<Rightarrow> Inr (''bool'', ctx, con)
           | _ \<Rightarrow> Inr (''string'', ctx, con))
      | ZodNull \<Rightarrow> Inr (''null'', ctx, con)
      | ZodArray innerSchema _ \<Rightarrow>
          (let con1 =
                 (if dbg
                  then con @ [ArrayInner (case innerSchema of Some i \<Rightarrow> getKind i
                                                           | None \<Rightarrow> ''undefined'')]
                  else con)
           in case innerSchema of
                None \<Rightarrow> Inr (parenIfUnion ''string'' @ ''[]'', ctx, con1)
              | Some i \<Rightarrow>
                  (case toBamlType dbg (base (unwrapAll i)) ctx con1 (withSuffix hintName ''Item'') of
                     Inl e \<Rightarrow> Inl e
                   | Inr (inner, ctx1, con2) \<Rightarrow> Inr (parenIfUnion inner @ ''[]'', ctx1, con2)))
      | ZodEnum rawValues \<Rightarrow>
          (let values = (case rawValues of Some vs \<Rightarrow> vs | None \<Rightarrow> []) in
           if values = [] then Inr (''string'', ctx, con)
           else
             (let idSafe = list_all isIdentifier values;
                  (name, ctx1) = uniqueAliasOrEnumName ctx (orDefault hintName ''Enum'')
              in if idSafe
                 then Inr (name, ctx1\<lparr>enums := mapSet name values (enums ctx1)\<rparr>, con)
                 else Inr (name,
                           ctx1\<lparr>aliases :=
                                  mapSet name (join '' | '' (map jsonString values)) (aliases ctx1)\<rparr>,
                           con)))
      | ZodNativeEnum vs \<Rightarrow>
          (let values = enumStrings vs;
               (name, ctx1) = uniqueAliasOrEnumName ctx (orDefault hintName ''Enum'');
               idSafe = list_all isIdentifier values
           in if idSafe
              then Inr (name, ctx1\<lparr>enums := mapSet name values (enums ctx1)\<rparr>, con)
              else Inr (name,
                        ctx1\<lparr>aliases :=
                               mapSet name (join '' | '' (map jsonString values)) (aliases ctx1)\<rparr>,
                        con))
      | ZodRecord keyType valType \<Rightarrow>
          (case toBamlType dbg (orElse keyType ZodString) ctx con (withSuffix hintName ''Key'') of
             Inl e \<Rightarrow> Inl e
           | Inr (k, ctx1, con1) \<Rightarrow>
               (case toBamlType dbg valType ctx1 con1 (withSuffix hintName ''Val'') of
                  Inl e \<Rightarrow> Inl e
                | Inr (v, ctx2, con2) \<Rightarrow> Inr (''map<'' @ k @ '', '' @ v @ ''>'', ctx2, con2)))
      | ZodUnion options \<Rightarrow>
          (case unionOptions dbg hintName 0 options ctx con of
             Inl e \<Rightarrow> Inl e
           | Inr (parts, ctx1, con1) \<Rightarrow> Inr (join '' | '' parts, ctx1, con1))
      | ZodLazy getter \<Rightarrow> toBamlType dbg getter ctx con hintName
      | _ \<Rightarrow>
          (case defaultInner b of
             Some inner \<Rightarrow> toBamlType dbg inner ctx con hintName
           | None \<Rightarrow> Inl (Error (''Unsupported Zod type: '' @ getKind b))))"
| "objectFields dbg name [] ctx con flds = Inr (flds, ctx, con)"
| "objectFields dbg name ((key, fieldSchema, d) # rest) ctx con flds =
     (let m = unwrapModifiers fieldSchema d in
      case toBamlType dbg (base m) ctx con (Some (name @ ''_'' @ key)) of
        Inl e \<Rightarrow> Inl e
      | Inr (innerType, ctx1, con1) \<Rightarrow>
          (let type = (if nullable m then parenIfUnion innerType @ '' | null'' else innerType)
           in objectFields dbg name rest ctx1 con1
                (flds @ [\<lparr>f_name = key, f_type = type, f_optional = optional m,
                             f_description = description m\<rparr>])))"
| "unionOptions dbg hintName i [] ctx con = Inr ([], ctx, con)"
| "unionOptions dbg hintName i (opt # rest) ctx con =
     (case toBamlType dbg opt ctx con (withSuffix hintName (''U'' @ dec i)) of
        Inl e \<Rightarrow> Inl e
      | Inr (part, ctx1, con1) \<Rightarrow>
          (case unionOptions dbg hintName (Suc i) rest ctx1 con1 of
             Inl e \<Rightarrow> Inl e
           | Inr (parts, ctx2, con2) \<Rightarrow> Inr (part # parts, ctx2, con2)))"
  by pat_completeness auto

termination
  apply (relation "measure (\<lambda>x. case x of
      Inl (dbg, s, r) \<Rightarrow> size s
    | Inr (Inl (dbg, name, shape, r)) \<Rightarrow> size_list (size_prod (\<lambda>x. 0) (size_prod size (\<lambda>x. 0))) shape
    | Inr (Inr (dbg, h, i, opts, r)) \<Rightarrow> size_list size opts)")
  apply simp_all
  subgoal by (drule base_le) simp
  subgoal for dbg schema con x x71 x72 xa x2
    using size_unwrapAll [of x2] by (auto dest!: base_le)
  subgoal for schema x x101 x102
    using size_orElse [of x101] by (auto dest!: base_le)
  subgoal by (drule base_le) simp
  subgoal by (drule base_le) simp
  subgoal by (drule base_le) simp
  apply (auto dest!: size_defaultInner below_base)[9]
  subgoal for fieldSchema d
    using size_unwrapAll [of fieldSchema] by (simp add: unwrapModifiers_def Let_def)
  done

declare toBamlType.simps [simp del]

section \<open>renderTypes and buildBamlFromZod\<close>

text \<open>
  The lines of an enumeration, of an alias, of a field and of a class, as \<^verbatim>\<open>renderTypes\<close>
  pushes them.
\<close>

definition renderEnum :: "string \<times> string list \<Rightarrow> string list" where
  "renderEnum e =
     (case e of (name, values) \<Rightarrow>
        [''enum '' @ name @ '' {''] @ map (\<lambda>v. ''  '' @ v) values @ [''}''])"

definition renderAlias :: "string \<times> string \<Rightarrow> string" where
  "renderAlias a = (case a of (name, expr) \<Rightarrow> ''type '' @ name @ '' = '' @ expr)"

definition renderField :: "ClassField \<Rightarrow> string" where
  "renderField f =
     (let desc = (case f_description f of
                    None \<Rightarrow> []
                  | Some d \<Rightarrow> if d = [] then [] else '' @description('' @ jsonString d @ '')'')
      in ''  '' @ f_name f @ '' '' @ f_type f @ (if f_optional f then ''?'' else []) @ desc)"

definition renderClass :: "ClassType \<Rightarrow> string list" where
  "renderClass cls =
     [''class '' @ c_name cls @ '' {''] @ map renderField (c_fields cls) @ [''}'']"

text \<open>
  The loop over \<^verbatim>\<open>ctx.order\<close>: \<^verbatim>\<open>ctx.types.get(name)!\<close> is \<^verbatim>\<open>undefined\<close> for a name that
  is not a key, and reading its \<^verbatim>\<open>name\<close> throws.
\<close>

fun renderClasses :: "(string \<times> ClassType) list \<Rightarrow> string list \<Rightarrow> error + string list" where
  "renderClasses tys [] = Inr []"
| "renderClasses tys (name # rest) =
     (case mapGet name tys of
        None \<Rightarrow> Inl (TypeError ''Cannot read properties of undefined (reading 'name')'')
      | Some cls \<Rightarrow>
          (case renderClasses tys rest of
             Inl e \<Rightarrow> Inl e
           | Inr ls \<Rightarrow> Inr (renderClass cls @ ls)))"

definition renderTypes :: "Ctx \<Rightarrow> error + string" where
  "renderTypes ctx =
     (case renderClasses (types ctx) (order ctx) of
        Inl e \<Rightarrow> Inl e
      | Inr classLines \<Rightarrow>
          Inr (join ''\<newline>''
                 (concat (map renderEnum (enums ctx)) @ map renderAlias (aliases ctx) @ classLines)))"

text \<open>
  \<^verbatim>\<open>buildBamlFromZod\<close>: the translation of the schema in a fresh context under the name
  \<^verbatim>\<open>Root\<close>, and the file made of the header, the rendered types and the function.
\<close>

record built =
  bamlFile :: string
  funcName :: string
  rootType :: string

definition quoted :: "string \<Rightarrow> string" where
  "quoted s = [CHR 0x22] @ s @ [CHR 0x22]"

definition header :: string where
  "header =
     ''generator typescript {\<newline>  output_type '' @ quoted ''typescript''
       @ ''\<newline>  module_format '' @ quoted ''cjs'' @ ''\<newline>}\<newline>''"

definition func :: "string \<Rightarrow> string \<Rightarrow> string" where
  "func fName rType =
     ''function '' @ fName @ ''(input: string) -> '' @ rType
       @ '' {\<newline>  client '' @ quoted ''openai/gpt-5''
       @ ''\<newline>  prompt #'' @ [CHR 0x22]
       @ ''\<newline>    {{ input }}\<newline>    {{ ctx.output_format }}\<newline>  ''
       @ [CHR 0x22] @ ''#\<newline>}\<newline>''"

definition emptyCtx :: Ctx where
  "emptyCtx = \<lparr>types = [], order = [], enums = [], aliases = [], counter = 0\<rparr>"

definition buildBamlFromZod :: "bool \<Rightarrow> console \<Rightarrow> zod \<Rightarrow> error + (built \<times> console)" where
  "buildBamlFromZod dbg con schema =
     (let rootName = ''Root'' in
      case toBamlType dbg schema emptyCtx con (Some rootName) of
        Inl e \<Rightarrow> Inl e
      | Inr (rType, ctx, con1) \<Rightarrow>
          (let fName = ''Gen'' @ rootName in
           case renderTypes ctx of
             Inl e \<Rightarrow> Inl e
           | Inr tys \<Rightarrow>
               Inr (\<lparr>bamlFile = join ''\<newline>'' [header, tys, func fName rType],
                     funcName = fName, rootType = rType\<rparr>,
                    con1)))"

section \<open>The hint builder (json-hint.ts)\<close>

text \<open>
  \<^verbatim>\<open>JSON.stringify\<close> of a literal's value: \<open>None\<close> is the result \<^verbatim>\<open>undefined\<close>, which
  \<^verbatim>\<open>JSON.stringify\<close> returns for \<^verbatim>\<open>undefined\<close> and for a symbol; a BigInt makes it throw.
\<close>

definition jsonStringify :: "literal \<Rightarrow> error + string option" where
  "jsonStringify val =
     (case val of
        LitString s \<Rightarrow> Inr (Some (jsonString s))
      | LitNumber _ txt \<Rightarrow> Inr (Some txt)
      | LitBoolean b \<Rightarrow> Inr (Some (if b then ''true'' else ''false''))
      | LitNull \<Rightarrow> Inr (Some ''null'')
      | LitUndefined \<Rightarrow> Inr None
      | LitBigInt \<Rightarrow> Inl (TypeError ''Do not know how to serialize a BigInt''))"

text \<open>
  A value that is a string or \<^verbatim>\<open>undefined\<close>: inside a template literal \<^verbatim>\<open>undefined\<close>
  reads \<^verbatim>\<open>undefined\<close>, as an element of a joined array it is the empty string.
\<close>

definition inTemplate :: "string option \<Rightarrow> string" where
  "inTemplate v = (case v of None \<Rightarrow> ''undefined'' | Some s \<Rightarrow> s)"

definition inJoin :: "string option \<Rightarrow> string" where
  "inJoin v = (case v of None \<Rightarrow> [] | Some s \<Rightarrow> s)"

definition undefinedDef :: error where
  "undefinedDef = TypeError ''Cannot read properties of undefined (reading '_def')''"

function describeSchema :: "zod \<Rightarrow> error + string option"
  and describeFields :: "(string \<times> zod \<times> string option) list \<Rightarrow> error + string list"
  and describeOptions :: "zod list \<Rightarrow> error + string option list"
where
  "describeSchema s =
     (let b = base (unwrapAll s) in
      case b of
        ZodObject shape \<Rightarrow>
          (case describeFields shape of
             Inl e \<Rightarrow> Inl e
           | Inr parts \<Rightarrow> Inr (Some (''{ '' @ join '', '' parts @ '' }'')))
      | ZodString \<Rightarrow> Inr (Some ''string'')
      | ZodNumber _ \<Rightarrow> Inr (Some ''number'')
      | ZodBoolean \<Rightarrow> Inr (Some ''boolean'')
      | ZodArray innerSchema _ \<Rightarrow>
          (case innerSchema of
             None \<Rightarrow> Inl undefinedDef
           | Some i \<Rightarrow>
               (case describeSchema (base (unwrapAll i)) of
                  Inl e \<Rightarrow> Inl e
                | Inr d \<Rightarrow> Inr (Some (inTemplate d @ ''[]''))))
      | ZodEnum rawValues \<Rightarrow>
          (let values = (case rawValues of Some vs \<Rightarrow> vs | None \<Rightarrow> [])
           in Inr (Some (if values \<noteq> [] then join '' | '' (map jsonString values)
                         else ''string'')))
      | ZodNativeEnum vs \<Rightarrow>
          (let values = enumStrings vs
           in Inr (Some (if values \<noteq> [] then join '' | '' (map jsonString values)
                         else ''string'')))
      | ZodLiteral val \<Rightarrow> jsonStringify val
      | ZodUnion options \<Rightarrow>
          (case describeOptions options of
             Inl e \<Rightarrow> Inl e
           | Inr ds \<Rightarrow> Inr (Some (join '' | '' (map inJoin ds))))
      | ZodRecord _ valueType \<Rightarrow>
          (case describeSchema valueType of
             Inl e \<Rightarrow> Inl e
           | Inr d \<Rightarrow> Inr (Some (''{ [key: string]: '' @ inTemplate d @ '' }'')))
      | ZodNullable innerType \<Rightarrow>
          (case innerType of
             None \<Rightarrow> Inl undefinedDef
           | Some i \<Rightarrow>
               (case describeSchema i of
                  Inl e \<Rightarrow> Inl e
                | Inr d \<Rightarrow> Inr (Some (inTemplate d @ '' | null''))))
      | ZodOptional innerType \<Rightarrow>
          (case innerType of
             None \<Rightarrow> Inl undefinedDef
           | Some i \<Rightarrow> describeSchema i)
      | _ \<Rightarrow> Inr (Some ''unknown''))"
| "describeFields [] = Inr []"
| "describeFields ((k, field, d) # rest) =
     (let u = unwrapAll field in
      case describeSchema (base u) of
        Inl e \<Rightarrow> Inl e
      | Inr t \<Rightarrow>
          (case describeFields rest of
             Inl e \<Rightarrow> Inl e
           | Inr parts \<Rightarrow>
               Inr ((k @ (if optional u then ''?'' else []) @ '': '' @ inTemplate t) # parts)))"
| "describeOptions [] = Inr []"
| "describeOptions (opt # rest) =
     (case describeSchema opt of
        Inl e \<Rightarrow> Inl e
      | Inr d \<Rightarrow>
          (case describeOptions rest of
             Inl e \<Rightarrow> Inl e
           | Inr ds \<Rightarrow> Inr (d # ds)))"
  by pat_completeness auto

termination
  apply (relation "measure (\<lambda>x. case x of
      Inl s \<Rightarrow> size s
    | Inr (Inl shape) \<Rightarrow> size_list (size_prod (\<lambda>x. 0) (size_prod size (\<lambda>x. 0))) shape
    | Inr (Inr opts) \<Rightarrow> size_list size opts)")
  apply simp_all
  subgoal by (drule base_le) simp
  subgoal for s x x71 x72 x2
    using size_unwrapAll [of x2] by (auto dest!: base_le)
  subgoal by (drule base_le) simp
  subgoal by (drule base_le) simp
  subgoal by (drule base_le) simp
  subgoal by (drule base_le) simp
  subgoal for field
    using size_unwrapAll [of field] by simp
  done

declare describeSchema.simps [simp del]

definition buildJsonHint :: "zod \<Rightarrow> error + string" where
  "buildJsonHint schema =
     (case describeSchema schema of
        Inl e \<Rightarrow> Inl e
      | Inr d \<Rightarrow>
          Inr (''You are to output ONLY valid JSON with no extra text. ''
               @ ''The JSON must match the following structure: '' @ inTemplate d @ ''.''))"

subsection \<open>mergeJsonHintIntoMessages\<close>

text \<open>
  A message is an object with a \<^verbatim>\<open>role\<close>, a \<^verbatim>\<open>content\<close> (a string, or an array of part
  objects) and possibly other properties, kept as a list of keys and values. Inside a
  template literal an array reads as its elements joined by commas, and a part object
  reads \<^verbatim>\<open>[object Object]\<close>.
\<close>

datatype 'p content = Text string | Parts "'p list"

definition contentString :: "'p content \<Rightarrow> string" where
  "contentString c =
     (case c of
        Text s \<Rightarrow> s
      | Parts ps \<Rightarrow> join '','' (map (\<lambda>p. ''[object Object]'') ps))"

record ('p, 'v) message =
  role :: string
  content :: "'p content"
  others :: "(string \<times> 'v) list"

definition mergeJsonHintIntoMessages ::
    "string \<Rightarrow> ('p, 'v) message list \<Rightarrow> ('p, 'v) message list" where
  "mergeJsonHintIntoMessages hint messages =
     (case messages of
        [] \<Rightarrow> [\<lparr>role = ''system'', content = Text hint, others = []\<rparr>]
      | first # rest \<Rightarrow>
          if role first = ''system''
          then first\<lparr>content := Text (contentString (content first) @ ''\<newline>\<newline>'' @ hint)\<rparr> # rest
          else \<lparr>role = ''system'', content = Text hint, others = []\<rparr> # messages)"

section \<open>generateObjectCompat\<close>

text \<open>
  The collaborators of the orchestrator are parameters of the model:
  \<^item> \<open>sha256\<close>, the hash function of \<^verbatim>\<open>node:crypto\<close>, from a text to its 256-bit digest;
  \<^item> \<open>buildClient\<close>, the outcome of \<^verbatim>\<open>buildAndLoadBamlClient\<close> for a workspace (the cache
    key names the workspace): an exception, or the registry \<^verbatim>\<open>client.parse\<close>, which
    gives for a function name and a text an exception or the parsed object;
  \<^item> \<open>generateText\<close>, the text generation service: what its \<open>n\<close>-th call (counted from
    0) does with a request, an exception or a result.
  What the orchestrator does to the outside is the list of its events, in order (the
  console entries of a translation that throws are not kept).
\<close>

text \<open>
  The options and the request carry the model and the generation parameters
  (\<^verbatim>\<open>maxTokens\<close>, \<^verbatim>\<open>temperature\<close>, \<^verbatim>\<open>topP\<close>) as their settings; the orchestrator passes them
  on unread. A missing property of an object is \<open>None\<close>.
\<close>

record ('p, 'v, 'g) request =
  q_prompt :: "string option"
  q_messages :: "('p, 'v) message list option"
  q_settings :: 'g

record 'u textRes =
  g_text :: "string option"
  g_output_text :: "string option"
  g_usage :: "'u option"
  g_finishReason :: "'u option"

record ('p, 'v, 'g) options =
  o_schema :: "zod option"
  o_prompt :: "string option"
  o_messages :: "('p, 'v) message list option"
  o_settings :: 'g

record ('o, 'u) result =
  r_object :: 'o
  r_text :: string
  r_usage :: "'u option"
  r_finishReason :: "'u option"

datatype 'x failure = Failure error | Thrown 'x

datatype ('p, 'v, 'g) event =
    ConsoleLog logEntry
  | PrepareWorkspace "256 word" string
  | BuildClient "256 word"
  | GenerateText "('p, 'v, 'g) request"
  | Sleep nat
  | Parse string string

record ('p, 'v, 'g, 'x, 'o, 'u) collaborators =
  sha256 :: "string \<Rightarrow> 256 word"
  buildClient :: "256 word \<Rightarrow> 'x + (string \<Rightarrow> string \<Rightarrow> 'x + 'o)"
  generateText :: "nat \<Rightarrow> ('p, 'v, 'g) request \<Rightarrow> 'x + 'u textRes"

definition cacheKey :: "(string \<Rightarrow> 256 word) \<Rightarrow> string \<Rightarrow> 256 word" where
  \<comment> \<open>\<^verbatim>\<open>createHash('sha256').update(bamlFile).digest('hex')\<close>\<close>
  "cacheKey hash bamlText = hash bamlText"

definition attempts :: nat where
  "attempts = 3"

definition calls :: "('p, 'v, 'g) event list \<Rightarrow> nat" where
  "calls tr = length (filter (\<lambda>e. case e of GenerateText _ \<Rightarrow> True | _ \<Rightarrow> False) tr)"

text \<open>
  The retry loop, from the value \<open>i\<close> of its counter; \<open>Inr None\<close> is the exit of the loop
  with \<^verbatim>\<open>textRes\<close> still \<^verbatim>\<open>undefined\<close>, \<open>Inl\<close> the error thrown at the last attempt.
\<close>

function retryLoop ::
    "(nat \<Rightarrow> ('p, 'v, 'g) request \<Rightarrow> 'x + 'u textRes) \<Rightarrow> ('p, 'v, 'g) request \<Rightarrow> nat
       \<Rightarrow> ('p, 'v, 'g) event list \<Rightarrow> ('x + 'u textRes option) \<times> ('p, 'v, 'g) event list" where
  "retryLoop gen req i tr =
     (if i < attempts then
        (case gen (calls tr) req of
           Inr textRes \<Rightarrow> (Inr (Some textRes), tr @ [GenerateText req])
         | Inl err \<Rightarrow>
             if i = attempts - 1 then (Inl err, tr @ [GenerateText req])
             else retryLoop gen req (i + 1) (tr @ [GenerateText req, Sleep (250 * (i + 1))]))
      else (Inr None, tr))"
  by pat_completeness auto
termination
  by (relation "measure (\<lambda>(gen, req, i, tr). attempts - i)") auto

declare retryLoop.simps [simp del]

definition buildRequest :: "string \<Rightarrow> ('p, 'v, 'g) options \<Rightarrow> ('p, 'v, 'g) request" where
  "buildRequest jsonHint opts =
     \<lparr>q_prompt = (case o_prompt opts of
                    None \<Rightarrow> None
                  | Some p \<Rightarrow> if p = [] then None else Some (jsonHint @ ''\<newline>\<newline>'' @ p)),
      q_messages = (case o_messages opts of
                      None \<Rightarrow> None
                    | Some ms \<Rightarrow> Some (mergeJsonHintIntoMessages jsonHint ms)),
      q_settings = o_settings opts\<rparr>"

text \<open>
  \<^verbatim>\<open>textRes.text ?? textRes.output_text ?? ''\<close>: the first of the two properties that is
  there, even when it is the empty string.
\<close>

definition resultText :: "'u textRes \<Rightarrow> string" where
  "resultText textRes =
     (case g_text textRes of
        Some t \<Rightarrow> t
      | None \<Rightarrow> (case g_output_text textRes of Some t \<Rightarrow> t | None \<Rightarrow> []))"

text \<open>
  The events before the first call of the text generation service: the console output
  of the translation and of the orchestrator, and the workspace and the client of the
  cache key.
\<close>

definition preludeEvents ::
    "bool \<Rightarrow> (string \<Rightarrow> 256 word) \<Rightarrow> built \<Rightarrow> console \<Rightarrow> ('p, 'v, 'g) event list" where
  "preludeEvents dbg hash b con =
     map ConsoleLog con
       @ (if dbg then [ConsoleLog (GeneratedBaml (bamlFile b))] else [])
       @ [PrepareWorkspace (cacheKey hash (bamlFile b)) (bamlFile b),
          BuildClient (cacheKey hash (bamlFile b))]"

definition generateObjectCompat ::
    "bool \<Rightarrow> ('p, 'v, 'g, 'x, 'o, 'u) collaborators \<Rightarrow> ('p, 'v, 'g) options
       \<Rightarrow> ('x failure + ('o, 'u) result) \<times> ('p, 'v, 'g) event list" where
  "generateObjectCompat dbg env opts =
     (case o_schema opts of
        None \<Rightarrow> (Inl (Failure (Error ''schema is required'')), [])
      | Some sch \<Rightarrow>
     (case buildBamlFromZod dbg [] sch of
        Inl e \<Rightarrow> (Inl (Failure e), [])
      | Inr (b, con) \<Rightarrow>
     (let key = cacheKey (sha256 env) (bamlFile b);
          tr1 = preludeEvents dbg (sha256 env) b con
      in
      case buildClient env key of
        Inl x \<Rightarrow> (Inl (Thrown x), tr1)
      | Inr client \<Rightarrow>
     (case buildJsonHint sch of
        Inl e \<Rightarrow> (Inl (Failure e), tr1)
      | Inr jsonHint \<Rightarrow>
     (case retryLoop (generateText env) (buildRequest jsonHint opts) 0 tr1 of
        (Inl x, tr2) \<Rightarrow> (Inl (Thrown x), tr2)
      | (Inr None, tr2) \<Rightarrow>
          (Inl (Failure (TypeError ''Cannot read properties of undefined (reading 'text')'')), tr2)
      | (Inr (Some textRes), tr2) \<Rightarrow>
          (let t = resultText textRes
           in if t = [] then (Inl (Failure (Error ''generateText returned empty text'')), tr2)
              else
                (case client (funcName b) t of
                   Inl x \<Rightarrow> (Inl (Thrown x), tr2 @ [Parse (funcName b) t])
                 | Inr parsed \<Rightarrow>
                     (Inr \<lparr>r_object = parsed, r_text = t, r_usage = g_usage textRes,
                           r_finishReason = g_finishReason textRes\<rparr>,
                      tr2 @ [Parse (funcName b) t]))))))))"

section \<open>Notions for the properties\<close>

subsection \<open>Wrappers and chains of wrappers\<close>

text \<open>The kinds that \<^verbatim>\<open>unwrapAll\<close> peels.\<close>

fun isWrapper :: "zod \<Rightarrow> bool" where
  "isWrapper (ZodOptional _) = True"
| "isWrapper (ZodNullable _) = True"
| "isWrapper (ZodDefault _) = True"
| "isWrapper (ZodCatch _) = True"
| "isWrapper (ZodReadonly _) = True"
| "isWrapper (ZodBranded _) = True"
| "isWrapper (ZodEffects _) = True"
| "isWrapper (ZodPipeline _ _) = True"
| "isWrapper _ = False"

text \<open>
  A wrapper around a node, as the schema library builds it; the Pipeline carries its
  input side too.
\<close>

datatype wrapper =
  WOptional | WNullable | WDefault | WCatch | WReadonly | WBranded | WEffects
  | WPipeline "zod option"

fun wrapWith :: "wrapper \<Rightarrow> zod \<Rightarrow> zod" where
  "wrapWith WOptional s = ZodOptional (Some s)"
| "wrapWith WNullable s = ZodNullable (Some s)"
| "wrapWith WDefault s = ZodDefault (Some s)"
| "wrapWith WCatch s = ZodCatch (Some s)"
| "wrapWith WReadonly s = ZodReadonly (Some s)"
| "wrapWith WBranded s = ZodBranded (Some s)"
| "wrapWith WEffects s = ZodEffects (Some s)"
| "wrapWith (WPipeline inn) s = ZodPipeline inn (Some s)"

text \<open>
  The nodes at which the loop of \<^verbatim>\<open>unwrapAll\<close> makes no progress: the nodes that are no
  wrappers, and the wrappers that have no inner node.
\<close>

fun endOfChain :: "zod \<Rightarrow> bool" where
  "endOfChain (ZodOptional inner) = (inner = None)"
| "endOfChain (ZodNullable inner) = (inner = None)"
| "endOfChain (ZodDefault inner) = (inner = None)"
| "endOfChain (ZodCatch inner) = (inner = None)"
| "endOfChain (ZodReadonly inner) = (inner = None)"
| "endOfChain (ZodBranded inner) = (inner = None)"
| "endOfChain (ZodEffects inner) = (inner = None)"
| "endOfChain (ZodPipeline inn out) = (inn = None \<and> out = None)"
| "endOfChain _ = True"

subsection \<open>Results without the console\<close>

text \<open>
  The result of a translation without the console: the type expression and the context,
  or the error.
\<close>

definition withoutConsole :: "error + ('a \<times> Ctx \<times> console) \<Rightarrow> error + ('a \<times> Ctx)" where
  "withoutConsole r = (case r of Inl e \<Rightarrow> Inl e | Inr (x, ctx, con) \<Rightarrow> Inr (x, ctx))"

subsection \<open>Schemas\<close>

text \<open>
  The object schema \<^verbatim>\<open>{id: int, rating: float, isActive: bool, tags: string[] (min 1),
  maybe: optional string, nick: nullable string}\<close> of the specification and of the tests.
\<close>

definition specSchema :: zod where
  "specSchema = ZodObject
     [(''id'', ZodNumber [''int''], None),
      (''rating'', ZodNumber [], None),
      (''isActive'', ZodBoolean, None),
      (''tags'', ZodArray (Some ZodString) (Some 1), None),
      (''maybe'', ZodOptional (Some ZodString), None),
      (''nick'', ZodNullable (Some ZodString), None)]"




subsection \<open>The orchestrator\<close>

definition isParse :: "('p, 'v, 'g) event \<Rightarrow> bool" where
  "isParse e = (case e of Parse _ _ \<Rightarrow> True | _ \<Rightarrow> False)"


text \<open>
  The steps before the retry loop succeed: the schema is there and translates to \<open>b\<close>,
  the client is built and loaded, the hint is built, and \<open>req\<close> is the request made of it.
\<close>

definition prepared ::
    "bool \<Rightarrow> ('p, 'v, 'g, 'x, 'o, 'u) collaborators \<Rightarrow> ('p, 'v, 'g) options \<Rightarrow> built \<Rightarrow> console
       \<Rightarrow> (string \<Rightarrow> string \<Rightarrow> 'x + 'o) \<Rightarrow> ('p, 'v, 'g) request \<Rightarrow> bool" where
  "prepared dbg env opts b con client req =
     (\<exists>sch jsonHint.
        o_schema opts = Some sch
        \<and> buildBamlFromZod dbg [] sch = Inr (b, con)
        \<and> buildClient env (cacheKey (sha256 env) (bamlFile b)) = Inr client
        \<and> buildJsonHint sch = Inr jsonHint
        \<and> req = buildRequest jsonHint opts)"

text \<open>The events of \<open>k\<close> failed attempts, each with the delay that follows it.\<close>

definition failedAttempts :: "('p, 'v, 'g) request \<Rightarrow> nat \<Rightarrow> nat \<Rightarrow> ('p, 'v, 'g) event list" where
  "failedAttempts req i k = concat (map (\<lambda>j. [GenerateText req, Sleep (250 * (j + 1))]) [i..<i + k])"

text \<open>
  Collaborators for the examples: the hash is constant, the client's parser returns the
  text it is given, and the text generation service throws at its first \<open>k\<close> calls and
  returns \<open>res\<close> from then on.
\<close>

definition echoClient :: "string \<Rightarrow> string \<Rightarrow> string + string" where
  "echoClient fName t = Inr t"

definition failingService ::
    "nat \<Rightarrow> unit textRes \<Rightarrow> (unit, unit, unit, string, string, unit) collaborators" where
  "failingService k res =
     \<lparr>sha256 = (\<lambda>t. 0),
      buildClient = (\<lambda>key. Inr echoClient),
      generateText = (\<lambda>n req. if n < k then Inl (''fault '' @ dec n) else Inr res)\<rparr>"

definition exampleOptions :: "(unit, unit, unit) options" where
  "exampleOptions =
     \<lparr>o_schema = Some specSchema, o_prompt = Some ''Describe a user.'', o_messages = None,
      o_settings = ()\<rparr>"

definition exampleBuilt :: built where
  "exampleBuilt = fst (projr (buildBamlFromZod False [] specSchema))"

definition exampleRequest :: "(unit, unit, unit) request" where
  "exampleRequest = buildRequest (projr (buildJsonHint specSchema)) exampleOptions"

definition someText :: "unit textRes" where
  "someText = \<lparr>g_text = None, g_output_text = Some ''{}'', g_usage = None, g_finishReason = None\<rparr>"

definition noText :: "unit textRes" where
  "noText = \<lparr>g_text = Some [], g_output_text = None, g_usage = None, g_finishReason = None\<rparr>"

text \<open>A request whose schema has a field that is the literal of a BigInt.\<close>

definition bigintOptions :: "(unit, unit, unit) options" where
  "bigintOptions =
     \<lparr>o_schema = Some (ZodObject [(''n'', ZodLiteral LitBigInt, None)]),
      o_prompt = Some ''Give the number.'', o_messages = None, o_settings = ()\<rparr>"

subsection \<open>The digest\<close>

text \<open>
  SHA-256 as FIPS 180-4 defines it, the function that \<^verbatim>\<open>createHash('sha256')\<close> of
  \<^verbatim>\<open>node:crypto\<close> computes. A word of 32 bits is the list of its bits, the least
  significant bit first; a byte is the list of the eight bits of its character.
\<close>

type_synonym bits = "bool list"

fun xorBits :: "bits \<Rightarrow> bits \<Rightarrow> bits" where
  "xorBits (x # xs) (y # ys) = (x \<noteq> y) # xorBits xs ys"
| "xorBits _ _ = []"

fun andBits :: "bits \<Rightarrow> bits \<Rightarrow> bits" where
  "andBits (x # xs) (y # ys) = (x \<and> y) # andBits xs ys"
| "andBits _ _ = []"

text \<open>Addition modulo \<open>2 ^ 32\<close>: the carry out of the last bit is dropped.\<close>

fun addCarry :: "bool \<Rightarrow> bits \<Rightarrow> bits \<Rightarrow> bits" where
  "addCarry c (x # xs) (y # ys) = ((x \<noteq> y) \<noteq> c) # addCarry (if c then x \<or> y else x \<and> y) xs ys"
| "addCarry _ _ _ = []"

definition addBits :: "bits \<Rightarrow> bits \<Rightarrow> bits" where
  "addBits = addCarry False"

definition rotr :: "nat \<Rightarrow> bits \<Rightarrow> bits" where
  "rotr n w = drop n w @ take n w"

definition shr :: "nat \<Rightarrow> bits \<Rightarrow> bits" where
  "shr n w = drop n w @ replicate n False"

fun incBits :: "bits \<Rightarrow> bits" where
  "incBits [] = []"
| "incBits (x # xs) = (if x then False # incBits xs else True # xs)"

definition byteBits :: "char \<Rightarrow> bits" where
  "byteBits c = (case c of Char b0 b1 b2 b3 b4 b5 b6 b7 \<Rightarrow> [b0, b1, b2, b3, b4, b5, b6, b7])"

text \<open>
  The value of a hexadecimal digit: the low four bits of the character of a decimal
  digit, and nine more than them for a letter.
\<close>

definition nibble :: "char \<Rightarrow> bits" where
  "nibble c = (case byteBits c of
      [b0, b1, b2, b3, b4, b5, b6, b7] \<Rightarrow>
        if b6 then addBits [b0, b1, b2, b3] [True, False, False, True] else [b0, b1, b2, b3]
    | _ \<Rightarrow> [])"

definition hexWord :: "string \<Rightarrow> bits" where
  "hexWord s = concat (map nibble (rev s))"

definition roundConstants :: "bits list" where
  "roundConstants = map hexWord
    [''428a2f98'', ''71374491'', ''b5c0fbcf'', ''e9b5dba5'', ''3956c25b'', ''59f111f1'', ''923f82a4'', ''ab1c5ed5'',
     ''d807aa98'', ''12835b01'', ''243185be'', ''550c7dc3'', ''72be5d74'', ''80deb1fe'', ''9bdc06a7'', ''c19bf174'',
     ''e49b69c1'', ''efbe4786'', ''0fc19dc6'', ''240ca1cc'', ''2de92c6f'', ''4a7484aa'', ''5cb0a9dc'', ''76f988da'',
     ''983e5152'', ''a831c66d'', ''b00327c8'', ''bf597fc7'', ''c6e00bf3'', ''d5a79147'', ''06ca6351'', ''14292967'',
     ''27b70a85'', ''2e1b2138'', ''4d2c6dfc'', ''53380d13'', ''650a7354'', ''766a0abb'', ''81c2c92e'', ''92722c85'',
     ''a2bfe8a1'', ''a81a664b'', ''c24b8b70'', ''c76c51a3'', ''d192e819'', ''d6990624'', ''f40e3585'', ''106aa070'',
     ''19a4c116'', ''1e376c08'', ''2748774c'', ''34b0bcb5'', ''391c0cb3'', ''4ed8aa4a'', ''5b9cca4f'', ''682e6ff3'',
     ''748f82ee'', ''78a5636f'', ''84c87814'', ''8cc70208'', ''90befffa'', ''a4506ceb'', ''bef9a3f7'', ''c67178f2'']"

definition initialHash :: "bits list" where
  "initialHash = map hexWord
    [''6a09e667'', ''bb67ae85'', ''3c6ef372'', ''a54ff53a'', ''510e527f'', ''9b05688c'', ''1f83d9ab'', ''5be0cd19'']"

definition ch :: "bits \<Rightarrow> bits \<Rightarrow> bits \<Rightarrow> bits" where
  "ch x y z = xorBits (andBits x y) (andBits (map Not x) z)"

definition maj :: "bits \<Rightarrow> bits \<Rightarrow> bits \<Rightarrow> bits" where
  "maj x y z = xorBits (xorBits (andBits x y) (andBits x z)) (andBits y z)"

definition bigSigma0 :: "bits \<Rightarrow> bits" where
  "bigSigma0 x = xorBits (xorBits (rotr 2 x) (rotr 13 x)) (rotr 22 x)"

definition bigSigma1 :: "bits \<Rightarrow> bits" where
  "bigSigma1 x = xorBits (xorBits (rotr 6 x) (rotr 11 x)) (rotr 25 x)"

definition smallSigma0 :: "bits \<Rightarrow> bits" where
  "smallSigma0 x = xorBits (xorBits (rotr 7 x) (rotr 18 x)) (shr 3 x)"

definition smallSigma1 :: "bits \<Rightarrow> bits" where
  "smallSigma1 x = xorBits (xorBits (rotr 17 x) (rotr 19 x)) (shr 10 x)"

text \<open>
  The bytes after the message: the byte \<^verbatim>\<open>80\<close>, the zero bytes that fill the last block
  of 64 bytes up to its last eight bytes, and in these the length of the message in bits,
  the most significant byte first. The length is eight times the number of the bytes,
  which is counted in 61 bits.
\<close>

definition padding :: "string \<Rightarrow> bits list" where
  "padding msg =
     hexWord ''80'' # replicate ((119 - length msg mod 64) mod 64) (hexWord ''00'')
     @ rev (map (\<lambda>i. take 8 (drop (8 * i)
                (replicate 3 False @ foldr (\<lambda>c. incBits) msg (replicate 61 False))))
            [0, 1, 2, 3, 4, 5, 6, 7])"

text \<open>Four bytes make a word, the most significant byte first; sixteen words make a block.\<close>

fun wordsOf :: "bits list \<Rightarrow> bits list" where
  "wordsOf (b0 # b1 # b2 # b3 # rest) = (b3 @ b2 @ b1 @ b0) # wordsOf rest"
| "wordsOf _ = []"

fun blocksOf :: "bits list \<Rightarrow> bits list list" where
  "blocksOf (w0 # w1 # w2 # w3 # w4 # w5 # w6 # w7 # w8 # w9 # w10 # w11 # w12 # w13 # w14 # w15 # rest) =
     [w0, w1, w2, w3, w4, w5, w6, w7, w8, w9, w10, w11, w12, w13, w14, w15] # blocksOf rest"
| "blocksOf _ = []"

text \<open>
  The message schedule: from the sixteen words \<open>W\<^sub>t, \<dots>, W\<^sub>t\<^sub>+\<^sub>1\<^sub>5\<close> the word
  \<open>W\<^sub>t\<^sub>+\<^sub>1\<^sub>6 = \<sigma>\<^sub>1(W\<^sub>t\<^sub>+\<^sub>1\<^sub>4) + W\<^sub>t\<^sub>+\<^sub>9 + \<sigma>\<^sub>0(W\<^sub>t\<^sub>+\<^sub>1) + W\<^sub>t\<close>; 48 steps from the block give the 64 words.
\<close>

fun schedule :: "nat \<Rightarrow> bits list \<Rightarrow> bits list" where
  "schedule (Suc n) (w0 # w1 # w2 # w3 # w4 # w5 # w6 # w7 # w8 # w9 # w10 # w11 # w12 # w13 # w14 # rest) =
     w0 # schedule n (w1 # w2 # w3 # w4 # w5 # w6 # w7 # w8 # w9 # w10 # w11 # w12 # w13 # w14 # rest
            @ [addBits (addBits (addBits (smallSigma1 w14) w9) (smallSigma0 w1)) w0])"
| "schedule _ window = window"

text \<open>One round on the working variables \<open>a, \<dots>, h\<close>, with the sums \<open>T\<^sub>1\<close> and \<open>T\<^sub>2\<close>.\<close>

fun nextVariables :: "bits list \<Rightarrow> bits \<Rightarrow> bits \<Rightarrow> bits list" where
  "nextVariables [a, b, c, d, e, f, g, h] t1 t2 = [addBits t1 t2, a, b, c, addBits d t1, e, f, g]"
| "nextVariables st _ _ = st"

fun roundStep :: "bits list \<Rightarrow> bits \<times> bits \<Rightarrow> bits list" where
  "roundStep [a, b, c, d, e, f, g, h] (k, w) =
     nextVariables [a, b, c, d, e, f, g, h]
       (addBits (addBits (addBits (addBits h (bigSigma1 e)) (ch e f g)) k) w)
       (addBits (bigSigma0 a) (maj a b c))"
| "roundStep st _ = st"

definition compress :: "bits list \<Rightarrow> bits list \<Rightarrow> bits list" where
  "compress st block = map2 addBits st (foldl roundStep st (zip roundConstants (schedule 48 block)))"

definition sha256Words :: "string \<Rightarrow> bits list" where
  "sha256Words msg = foldl compress initialHash (blocksOf (wordsOf (map byteBits msg @ padding msg)))"

text \<open>The digest: the eight words of the last hash value, the first the most significant.\<close>

definition sha256Digest :: "string \<Rightarrow> 256 word" where
  "sha256Digest msg = word_of_int (horner_sum of_bool 2 (concat (rev (sha256Words msg))))"



section \<open>Facts about the translator\<close>

subsection \<open>Nodes that are not wrappers\<close>

lemma unwrapLoop_plain:
  "\<not> isWrapper s \<Longrightarrow> unwrapLoop n s opt nul = \<lparr>base = s, optional = opt, nullable = nul\<rparr>"
  by (cases n; cases s) simp_all

lemma unwrapAll_plain:
  "\<not> isWrapper s \<Longrightarrow> unwrapAll s = \<lparr>base = s, optional = False, nullable = False\<rparr>"
  by (simp add: unwrapAll_def unwrapLoop_plain)

subsection \<open>The console does not influence the translation\<close>

lemma withoutConsole_simps [simp]:
  "withoutConsole (Inl e) = Inl e"
  "withoutConsole (Inr (x, ctx, con)) = Inr (x, ctx)"
  by (simp_all add: withoutConsole_def)

lemma withoutConsole_bind:
  assumes "withoutConsole r = withoutConsole r'"
  shows "withoutConsole (case r of Inl e \<Rightarrow> Inl e | Inr (x, c, k) \<Rightarrow> Inr (f x c, g x c, k))
       = withoutConsole (case r' of Inl e \<Rightarrow> Inl e | Inr (x, c, k) \<Rightarrow> Inr (f x c, g x c, k))"
  using assms by (cases r; cases r') (auto simp: withoutConsole_def split: prod.splits)

lemma withoutConsole_seq:
  assumes "withoutConsole r = withoutConsole r'"
    and "\<And>x c k k'. r = Inr (x, c, k) \<Longrightarrow> r' = Inr (x, c, k')
           \<Longrightarrow> withoutConsole (F x c k) = withoutConsole (F' x c k')"
  shows "withoutConsole (case r of Inl e \<Rightarrow> Inl e | Inr (x, c, k) \<Rightarrow> F x c k)
       = withoutConsole (case r' of Inl e \<Rightarrow> Inl e | Inr (x, c, k) \<Rightarrow> F' x c k)"
  using assms by (cases r; cases r') (auto simp: withoutConsole_def split: prod.splits)

lemma console_independent:
  "\<forall>d' con'. withoutConsole (toBamlType dbg schema ctx con hintName)
       = withoutConsole (toBamlType d' schema ctx con' hintName)"
  "\<forall>d' con'. withoutConsole (objectFields dbg name shape ctx con flds)
       = withoutConsole (objectFields d' name shape ctx con' flds)"
  "\<forall>d' con'. withoutConsole (unionOptions dbg hintName i opts ctx con)
       = withoutConsole (unionOptions d' hintName i opts ctx con')"
proof (induction dbg schema ctx con hintName and dbg name shape ctx con flds
         and dbg hintName i opts ctx con rule: toBamlType_objectFields_unionOptions.induct)
  case (1 dbg schema ctx con hintName)
  show ?case
  proof (intro allI)
    fix d' con'
    show "withoutConsole (toBamlType dbg schema ctx con hintName)
       = withoutConsole (toBamlType d' schema ctx con' hintName)"
    proof (cases "base (unwrapAll schema)")
      case (ZodObject shape)
      obtain nm ctx1 where u: "uniqueClassName ctx (orDefault hintName ''Obj'') = (nm, ctx1)"
        by fastforce
      have ih: "withoutConsole (objectFields dbg nm shape ctx1 con [])
          = withoutConsole (objectFields d' nm shape ctx1 con' [])"
        using "1.IH"(1) [OF refl ZodObject refl u [symmetric]] by blast
      show ?thesis
        by (simp add: toBamlType.simps [of _ schema] ZodObject u Let_def)
          (rule withoutConsole_bind [OF ih])
    next
      case (ZodArray inner m)
      show ?thesis
      proof (cases inner)
        case None
        then show ?thesis
          by (simp add: toBamlType.simps [of _ schema] ZodArray)
      next
        case (Some el)
        have ih: "withoutConsole (toBamlType dbg (base (unwrapAll el)) ctx c1 (withSuffix hintName ''Item''))
            = withoutConsole (toBamlType d' (base (unwrapAll el)) ctx c2 (withSuffix hintName ''Item''))"
          if "c1 = (if dbg then con @ [ArrayInner (case inner of None \<Rightarrow> ''undefined'' | Some x \<Rightarrow> getKind x)] else con)"
          for c1 c2
          using "1.IH"(2) [OF refl ZodArray that Some] by blast
        show ?thesis
          by (simp only: toBamlType.simps [of _ schema] ZodArray Some Let_def zod.case option.case)
            (rule withoutConsole_bind, rule ih, simp add: Some)
      qed
    next
      case (ZodRecord keyType valType)
      let ?k = "\<lambda>d c. toBamlType d (orElse keyType ZodString) ctx c (withSuffix hintName ''Key'')"
      have k: "withoutConsole (?k dbg con) = withoutConsole (?k d' con')"
        using "1.IH"(3) [OF refl ZodRecord] by blast
      have v: "withoutConsole (toBamlType dbg valType c k1 (withSuffix hintName ''Val''))
             = withoutConsole (toBamlType d' valType c k2 (withSuffix hintName ''Val''))"
        if "?k dbg con = Inr (x, c, k1)" for x c k1 k2
        using "1.IH"(4) [OF refl ZodRecord that refl refl] by blast
      show ?thesis
        by (simp add: toBamlType.simps [of _ schema] ZodRecord Let_def)
          (rule withoutConsole_seq [OF k], rule withoutConsole_bind, rule v)
    next
      case (ZodUnion options)
      have ih: "withoutConsole (unionOptions dbg hintName 0 options ctx con)
          = withoutConsole (unionOptions d' hintName 0 options ctx con')"
        using "1.IH"(5) [OF refl ZodUnion] by blast
      show ?thesis
        by (simp add: toBamlType.simps [of _ schema] ZodUnion Let_def)
          (rule withoutConsole_bind [OF ih])
    next
      case (ZodLazy getter)
      then show ?thesis
        using "1.IH"(6) [OF refl ZodLazy]
        by (simp add: toBamlType.simps [of _ schema] Let_def)
    next
      case (ZodOptional inner)
      then show ?thesis
        using "1.IH"(7) [OF refl ZodOptional]
        by (cases inner) (simp_all add: toBamlType.simps [of _ schema] Let_def)
    next
      case (ZodNullable inner)
      then show ?thesis
        using "1.IH"(8) [OF refl ZodNullable]
        by (cases inner) (simp_all add: toBamlType.simps [of _ schema] Let_def)
    next
      case (ZodDefault inner)
      then show ?thesis
        using "1.IH"(9) [OF refl ZodDefault]
        by (cases inner) (simp_all add: toBamlType.simps [of _ schema] Let_def)
    next
      case (ZodCatch inner)
      then show ?thesis
        using "1.IH"(10) [OF refl ZodCatch]
        by (cases inner) (simp_all add: toBamlType.simps [of _ schema] Let_def)
    next
      case (ZodReadonly inner)
      then show ?thesis
        using "1.IH"(11) [OF refl ZodReadonly]
        by (cases inner) (simp_all add: toBamlType.simps [of _ schema] Let_def)
    next
      case (ZodBranded inner)
      then show ?thesis
        using "1.IH"(12) [OF refl ZodBranded]
        by (cases inner) (simp_all add: toBamlType.simps [of _ schema] Let_def)
    next
      case (ZodEffects inner)
      then show ?thesis
        using "1.IH"(13) [OF refl ZodEffects]
        by (cases inner) (simp_all add: toBamlType.simps [of _ schema] Let_def)
    next
      case (ZodPipeline inn out)
      then show ?thesis
        using "1.IH"(14) [OF refl ZodPipeline]
        by (cases out) (simp_all add: toBamlType.simps [of _ schema] Let_def)
    next
      case (ZodOther k inner)
      then show ?thesis
        using "1.IH"(15) [OF refl ZodOther]
        by (cases inner) (simp_all add: toBamlType.simps [of _ schema] Let_def)
    qed (simp_all add: toBamlType.simps [of _ schema] Let_def split: prod.splits literal.splits)
  qed
next
  case (2 dbg name ctx con flds)
  show ?case by simp
next
  case (3 dbg name key fieldSchema d rest ctx con flds)
  let ?m = "unwrapModifiers fieldSchema d"
  let ?t = "\<lambda>dd c. toBamlType dd (base ?m) ctx c (Some (name @ ''_'' @ key))"
  show ?case
  proof (intro allI)
    fix d' con'
    have t: "withoutConsole (?t dbg con) = withoutConsole (?t d' con')"
      using "3.IH"(1) [OF refl] by blast
    have r: "withoutConsole (objectFields dbg name rest c k1
                 (flds @ [\<lparr>f_name = key,
                    f_type = (if nullable ?m then parenIfUnion x @ '' | null'' else x),
                    f_optional = optional ?m, f_description = description ?m\<rparr>]))
           = withoutConsole (objectFields d' name rest c k2
                 (flds @ [\<lparr>f_name = key,
                    f_type = (if nullable ?m then parenIfUnion x @ '' | null'' else x),
                    f_optional = optional ?m, f_description = description ?m\<rparr>]))"
      if "?t dbg con = Inr (x, c, k1)" for x c k1 k2
      using "3.IH"(2) [OF refl that refl refl refl] by blast
    show "withoutConsole (objectFields dbg name ((key, fieldSchema, d) # rest) ctx con flds)
        = withoutConsole (objectFields d' name ((key, fieldSchema, d) # rest) ctx con' flds)"
      apply (simp only: objectFields.simps Let_def)
      apply (rule withoutConsole_seq [OF t])
      apply (erule r)
      done
  qed
next
  case (4 dbg hintName i ctx con)
  show ?case by simp
next
  case (5 dbg hintName i opt rest ctx con)
  let ?t = "\<lambda>dd c. toBamlType dd opt ctx c (withSuffix hintName (''U'' @ dec i))"
  show ?case
  proof (intro allI)
    fix d' con'
    have t: "withoutConsole (?t dbg con) = withoutConsole (?t d' con')"
      using "5.IH"(1) by blast
    have r: "withoutConsole (unionOptions dbg hintName (Suc i) rest c k1)
           = withoutConsole (unionOptions d' hintName (Suc i) rest c k2)"
      if "?t dbg con = Inr (x, c, k1)" for x c k1 k2
      using "5.IH"(2) [OF that refl refl] by blast
    show "withoutConsole (unionOptions dbg hintName i (opt # rest) ctx con)
        = withoutConsole (unionOptions d' hintName i (opt # rest) ctx con')"
      by (simp only: unionOptions.simps)
        (rule withoutConsole_seq [OF t], rule withoutConsole_bind, rule r)
  qed
qed

section \<open>The properties of the specification\<close>

subsection \<open>Determinism of the rendered text and of the cache key\<close>






text \<open>The digest of the message \<^verbatim>\<open>abc\<close>, the first example of FIPS 180-4.\<close>

lemma sha256Digest_abc:
  "sha256Digest ''abc'' = 0xba7816bf8f01cfea414140de5dae2223b00361a396177a9cb410ff61f20015ad"
  by code_simp








subsection \<open>The schema of the round trip\<close>

text \<open>
  C8. Translating that schema, as \<^verbatim>\<open>buildBamlFromZod\<close> does (fresh context, name hint
  \<^verbatim>\<open>Root\<close>), declares the single class \<^verbatim>\<open>Root\<close> with exactly the six fields, in the order
  of their declaration; the field \<^verbatim>\<open>maybe\<close> has the optional flag and the type of the field
  \<^verbatim>\<open>nick\<close> is the union of \<^verbatim>\<open>string\<close> with \<^verbatim>\<open>null\<close>.
\<close>

theorem six_field_class:
  "withoutConsole (toBamlType dbg specSchema emptyCtx con (Some ''Root'')) =
     Inr (''Root'',
          \<lparr>types =
             [(''Root'',
               \<lparr>c_name = ''Root'',
                  c_fields =
                    [\<lparr>f_name = ''id'', f_type = ''int'', f_optional = False, f_description = None\<rparr>,
                     \<lparr>f_name = ''rating'', f_type = ''float'', f_optional = False, f_description = None\<rparr>,
                     \<lparr>f_name = ''isActive'', f_type = ''bool'', f_optional = False, f_description = None\<rparr>,
                     \<lparr>f_name = ''tags'', f_type = ''string[]'', f_optional = False, f_description = None\<rparr>,
                     \<lparr>f_name = ''maybe'', f_type = ''string'', f_optional = True, f_description = None\<rparr>,
                     \<lparr>f_name = ''nick'', f_type = ''string | null'', f_optional = False, f_description = None\<rparr>]\<rparr>)],
           order = [''Root''], enums = [], aliases = [], counter = 0\<rparr>)"
proof -
  have "withoutConsole (toBamlType dbg specSchema emptyCtx con (Some ''Root''))
      = withoutConsole (toBamlType False specSchema emptyCtx [] (Some ''Root''))"
    using console_independent(1) by blast
  also have "\<dots> = Inr (''Root'',
          \<lparr>types =
             [(''Root'',
               \<lparr>c_name = ''Root'',
                  c_fields =
                    [\<lparr>f_name = ''id'', f_type = ''int'', f_optional = False, f_description = None\<rparr>,
                     \<lparr>f_name = ''rating'', f_type = ''float'', f_optional = False, f_description = None\<rparr>,
                     \<lparr>f_name = ''isActive'', f_type = ''bool'', f_optional = False, f_description = None\<rparr>,
                     \<lparr>f_name = ''tags'', f_type = ''string[]'', f_optional = False, f_description = None\<rparr>,
                     \<lparr>f_name = ''maybe'', f_type = ''string'', f_optional = True, f_description = None\<rparr>,
                     \<lparr>f_name = ''nick'', f_type = ''string | null'', f_optional = False, f_description = None\<rparr>]\<rparr>)],
           order = [''Root''], enums = [], aliases = [], counter = 0\<rparr>)"
    by code_simp
  finally show ?thesis .
qed

subsection \<open>Enumerations without values\<close>

text \<open>
  C10. For an Enum node whose values are not an array, or are the empty array,
  \<^verbatim>\<open>toBamlType\<close> returns the type \<^verbatim>\<open>string\<close> and does not fail; the context, with its enum
  and alias maps, is returned as it was.
\<close>

theorem enum_without_values:
  "toBamlType dbg (ZodEnum None) ctx con hintName = Inr (''string'', ctx, con)
   \<and> toBamlType dbg (ZodEnum (Some [])) ctx con hintName = Inr (''string'', ctx, con)"
  by (simp add: toBamlType.simps unwrapAll_plain)

subsection \<open>Arrays of unions\<close>

text \<open>
  C6. For an array whose (unwrapped) element translates to the type expression \<open>expr\<close>,
  the type of the array is \<open>expr\<close> followed by the array suffix, with \<open>expr\<close> in
  parentheses when it contains the union operator; it is the bare \<open>expr\<close> with the suffix
  exactly when \<open>expr\<close> contains no union operator.
\<close>

theorem array_of_union_parenthesized:
  assumes "base (unwrapAll schema) = ZodArray (Some element) minLength"
    and "toBamlType dbg (base (unwrapAll element)) ctx
           (if dbg then con @ [ArrayInner (getKind element)] else con)
           (withSuffix hintName ''Item'') = Inr (expr, ctx', con')"
  shows "toBamlType dbg schema ctx con hintName
           = Inr ((if CHR ''|'' \<in> set expr then ''('' @ expr @ '')'' else expr) @ ''[]'', ctx', con')
         \<and> ((if CHR ''|'' \<in> set expr then ''('' @ expr @ '')'' else expr) @ ''[]'' = expr @ ''[]''
               \<longleftrightarrow> CHR ''|'' \<notin> set expr)"
  using assms by (cases dbg) (simp_all add: toBamlType.simps [of _ schema] Let_def parenIfUnion_def)

text \<open>The array of the union of a string and a number, under an optional wrapper.\<close>

theorem array_of_union_parenthesized_witness:
  "base (unwrapAll (ZodOptional (Some (ZodArray (Some (ZodUnion [ZodString, ZodNumber []])) None))))
     = ZodArray (Some (ZodUnion [ZodString, ZodNumber []])) None
   \<and> toBamlType False (base (unwrapAll (ZodUnion [ZodString, ZodNumber []]))) emptyCtx []
        (withSuffix (Some ''Root'') ''Item'') = Inr (''string | float'', emptyCtx, [])
   \<and> toBamlType False (ZodOptional (Some (ZodArray (Some (ZodUnion [ZodString, ZodNumber []])) None)))
        emptyCtx [] (Some ''Root'') = Inr (''(string | float)[]'', emptyCtx, [])"
proof -
  let ?u = "ZodUnion [ZodString, ZodNumber []]"
  let ?s = "ZodOptional (Some (ZodArray (Some ?u) None))"
  have b: "base (unwrapAll ?s) = ZodArray (Some ?u) None"
    by code_simp
  have e: "toBamlType False (base (unwrapAll ?u)) emptyCtx []
        (withSuffix (Some ''Root'') ''Item'') = Inr (''string | float'', emptyCtx, [])"
    by code_simp
  have e': "toBamlType False (base (unwrapAll ?u)) emptyCtx
        (if False then [] @ [ArrayInner (getKind ?u)] else [])
        (withSuffix (Some ''Root'') ''Item'') = Inr (''string | float'', emptyCtx, [])"
    using e by simp
  show ?thesis
    using array_of_union_parenthesized [OF b e'] b e by simp
qed

subsection \<open>Merging the hint into the messages\<close>

text \<open>
  C7. When the first message has the role \<^verbatim>\<open>system\<close>, the hint is appended to its content
  (after an empty line) and the number of messages is unchanged; when the first message
  has another role, a system message with the hint is put in front and the number of
  messages grows by one; for no messages the result is the one system message with the
  hint.
\<close>

theorem merge_hint_cases:
  "(role first = ''system'' \<longrightarrow>
      mergeJsonHintIntoMessages hint (first # rest)
        = first\<lparr>content := Text (contentString (content first) @ ''\<newline>\<newline>'' @ hint)\<rparr> # rest
      \<and> length (mergeJsonHintIntoMessages hint (first # rest)) = length (first # rest))
   \<and> (role first \<noteq> ''system'' \<longrightarrow>
      mergeJsonHintIntoMessages hint (first # rest)
        = \<lparr>role = ''system'', content = Text hint, others = []\<rparr> # first # rest
      \<and> length (mergeJsonHintIntoMessages hint (first # rest)) = length (first # rest) + 1)
   \<and> mergeJsonHintIntoMessages hint [] = [\<lparr>role = ''system'', content = Text hint, others = []\<rparr>]"
  by (simp add: mergeJsonHintIntoMessages_def)

text \<open>A system message followed by a user message, a lone user message, and no message.\<close>

theorem merge_hint_cases_witness:
  "role \<lparr>role = ''system'', content = Text ''Be brief.'', others = [(''id'', 1 :: nat)]\<rparr> = ''system''
   \<and> mergeJsonHintIntoMessages ''HINT''
        [\<lparr>role = ''system'', content = Text ''Be brief.'', others = [(''id'', 1 :: nat)]\<rparr>,
         \<lparr>role = ''user'', content = (Parts [()] :: unit content), others = []\<rparr>]
       = [\<lparr>role = ''system'', content = Text ''Be brief.\<newline>\<newline>HINT'', others = [(''id'', 1)]\<rparr>,
          \<lparr>role = ''user'', content = Parts [()], others = []\<rparr>]
   \<and> role \<lparr>role = ''user'', content = (Text ''Hi'' :: unit content), others = ([] :: (string \<times> nat) list)\<rparr> \<noteq> ''system''
   \<and> mergeJsonHintIntoMessages ''HINT''
        [\<lparr>role = ''user'', content = (Text ''Hi'' :: unit content), others = ([] :: (string \<times> nat) list)\<rparr>]
       = [\<lparr>role = ''system'', content = Text ''HINT'', others = []\<rparr>,
          \<lparr>role = ''user'', content = Text ''Hi'', others = []\<rparr>]
   \<and> mergeJsonHintIntoMessages ''HINT'' ([] :: (unit, nat) message list)
       = [\<lparr>role = ''system'', content = Text ''HINT'', others = []\<rparr>]"
  using
    merge_hint_cases [of "\<lparr>role = ''system'', content = Text ''Be brief.'', others = [(''id'', 1 :: nat)]\<rparr>"
      "''HINT''" "[\<lparr>role = ''user'', content = (Parts [()] :: unit content), others = []\<rparr>]"]
    merge_hint_cases [of "\<lparr>role = ''user'', content = (Text ''Hi'' :: unit content), others = ([] :: (string \<times> nat) list)\<rparr>"
      "''HINT''" "[]"]
  by (simp add: contentString_def mergeJsonHintIntoMessages_def)

subsection \<open>Named enumerations and literal-union aliases\<close>

lemma freshName_not_taken: "freshName taken clean name c = (n, c') \<Longrightarrow> n \<notin> set taken"
proof (induction taken clean name c rule: freshName.induct)
  case (1 taken clean name c)
  then show ?case
    by (subst (asm) (2) freshName.simps) (auto split: if_splits)
qed

lemma mapSet_fresh: "k \<notin> set (map fst m) \<Longrightarrow> mapSet k v m = m @ [(k, v)]"
  by (induction m) auto

lemma uniqueAliasOrEnumName_fresh:
  assumes "uniqueAliasOrEnumName ctx b = (name, ctx1)"
  shows "name \<notin> set (map fst (enums ctx))" and "name \<notin> set (map fst (aliases ctx))"
    and "ctx1 = ctx\<lparr>counter := counter ctx1\<rparr>"
proof -
  obtain c where f: "freshName (map fst (enums ctx) @ map fst (aliases ctx)) (toPascal b) (toPascal b)
      (counter ctx) = (name, c)" and c: "ctx1 = ctx\<lparr>counter := c\<rparr>"
    using assms by (auto simp: uniqueAliasOrEnumName_def Let_def split: prod.splits)
  from freshName_not_taken [OF f]
  show "name \<notin> set (map fst (enums ctx))" and "name \<notin> set (map fst (aliases ctx))"
    by auto
  from c show "ctx1 = ctx\<lparr>counter := counter ctx1\<rparr>" by simp
qed

text \<open>
  C5, as amended. For every NativeEnum node, and for every Enum node whose value list is
  not empty, with \<open>values\<close> the extracted string values: translation returns a name that
  is no key of the enum map and no key of the alias map; if every value is an
  identifier, the name is registered in the enum map with the values and the alias map
  is unchanged; otherwise the name is registered in the alias map with the JSON-quoted
  values joined by the union operator, and the enum map is unchanged.
\<close>

theorem enum_policy:
  assumes "base (unwrapAll schema) = ZodEnum (Some values) \<and> values \<noteq> []
           \<or> (\<exists>vs. base (unwrapAll schema) = ZodNativeEnum vs \<and> values = enumStrings vs)"
  shows "\<exists>name ctx'.
           toBamlType dbg schema ctx con hintName = Inr (name, ctx', con)
           \<and> name = fst (uniqueAliasOrEnumName ctx (orDefault hintName ''Enum''))
           \<and> name \<notin> set (map fst (enums ctx)) \<and> name \<notin> set (map fst (aliases ctx))
           \<and> types ctx' = types ctx \<and> order ctx' = order ctx
           \<and> (if list_all isIdentifier values
                then enums ctx' = enums ctx @ [(name, values)] \<and> aliases ctx' = aliases ctx
                else aliases ctx' = aliases ctx @ [(name, join '' | '' (map jsonString values))]
                     \<and> enums ctx' = enums ctx)"
proof -
  obtain name ctx1 where u: "uniqueAliasOrEnumName ctx (orDefault hintName ''Enum'') = (name, ctx1)"
    by fastforce
  note fresh = uniqueAliasOrEnumName_fresh [OF u]
  have same: "enums ctx1 = enums ctx" "aliases ctx1 = aliases ctx" "types ctx1 = types ctx"
    "order ctx1 = order ctx"
    by (subst fresh(3), simp)+
  have e: "mapSet name v (enums ctx) = enums ctx @ [(name, v)]" for v
    using fresh(1) by (simp add: mapSet_fresh)
  have a: "mapSet name v (aliases ctx) = aliases ctx @ [(name, v)]" for v
    using fresh(2) by (simp add: mapSet_fresh)
  from assms show ?thesis
  proof (elim disjE conjE exE)
    assume "base (unwrapAll schema) = ZodEnum (Some values)" and "values \<noteq> []"
    then show ?thesis
      using fresh(1,2)
      by (simp add: toBamlType.simps [of _ schema] Let_def u e a same)
  next
    fix vs
    assume "base (unwrapAll schema) = ZodNativeEnum vs" and "values = enumStrings vs"
    then show ?thesis
      using fresh(1,2)
      by (simp add: toBamlType.simps [of _ schema] Let_def u e a same)
  qed
qed

text \<open>
  The native enum of the roles \<^verbatim>\<open>Admin\<close> and \<^verbatim>\<open>User\<close>, and an enum with the value
  \<^verbatim>\<open>North America\<close>, which is no identifier.
\<close>

theorem enum_policy_witness:
  "(\<exists>vs. base (unwrapAll (ZodNativeEnum [EString ''Admin'', EString ''User''])) = ZodNativeEnum vs
         \<and> [''Admin'', ''User''] = enumStrings vs)
   \<and> list_all isIdentifier [''Admin'', ''User'']
   \<and> toBamlType False (ZodNativeEnum [EString ''Admin'', EString ''User'']) emptyCtx []
        (Some ''Root_role'')
       = Inr (''RootRole'', emptyCtx\<lparr>enums := [(''RootRole'', [''Admin'', ''User''])]\<rparr>, [])
   \<and> base (unwrapAll (ZodEnum (Some [''North America'', ''Europe'']))) = ZodEnum (Some [''North America'', ''Europe''])
   \<and> [''North America'', ''Europe''] \<noteq> []
   \<and> \<not> list_all isIdentifier [''North America'', ''Europe'']
   \<and> toBamlType False (ZodEnum (Some [''North America'', ''Europe''])) emptyCtx []
        (Some ''Root_area'')
       = Inr (''RootArea'',
              emptyCtx\<lparr>aliases := [(''RootArea'', quoted ''North America'' @ '' | '' @ quoted ''Europe'')]\<rparr>,
              [])"
proof -
  let ?n = "ZodNativeEnum [EString ''Admin'', EString ''User'']"
  let ?e = "ZodEnum (Some [''North America'', ''Europe''])"
  have h1: "base (unwrapAll ?e) = ZodEnum (Some [''North America'', ''Europe''])
              \<and> [''North America'', ''Europe''] \<noteq> []
           \<or> (\<exists>vs. base (unwrapAll ?e) = ZodNativeEnum vs \<and> [''North America'', ''Europe''] = enumStrings vs)"
    by (simp add: unwrapAll_plain)
  have h2: "base (unwrapAll ?n) = ZodEnum (Some [''Admin'', ''User'']) \<and> [''Admin'', ''User''] \<noteq> []
           \<or> (\<exists>vs. base (unwrapAll ?n) = ZodNativeEnum vs \<and> [''Admin'', ''User''] = enumStrings vs)"
    by (simp add: unwrapAll_plain enumStrings_def)
  have i1: "list_all isIdentifier [''Admin'', ''User'']" by code_simp
  have i2: "\<not> list_all isIdentifier [''North America'', ''Europe'']" by code_simp
  have r1: "toBamlType False ?n emptyCtx [] (Some ''Root_role'')
       = Inr (''RootRole'', emptyCtx\<lparr>enums := [(''RootRole'', [''Admin'', ''User''])]\<rparr>, [])"
    by code_simp
  have r2: "toBamlType False ?e emptyCtx [] (Some ''Root_area'')
       = Inr (''RootArea'',
              emptyCtx\<lparr>aliases := [(''RootArea'', quoted ''North America'' @ '' | '' @ quoted ''Europe'')]\<rparr>,
              [])"
    by code_simp
  show ?thesis
    using enum_policy [OF h1, of False emptyCtx "[]" "Some ''Root_area''"]
      enum_policy [OF h2, of False emptyCtx "[]" "Some ''Root_role''"] i1 i2 r1 r2
    by (simp add: unwrapAll_plain enumStrings_def)
qed

text \<open>
  C5, as the specification states it, fails for the Enum node with the empty value
  list: every one of its values is an identifier, yet no enumeration is registered and
  the result is the type \<^verbatim>\<open>string\<close>.
\<close>

theorem empty_enum_not_registered:
  "list_all isIdentifier []
   \<and> toBamlType False (ZodEnum (Some [])) emptyCtx [] (Some ''Root'') = Inr (''string'', emptyCtx, [])
   \<and> enums emptyCtx = []"
  by (simp add: toBamlType.simps unwrapAll_plain emptyCtx_def)

subsection \<open>Chains of wrappers\<close>

lemma unwrapLoop_endOfChain:
  "endOfChain s \<Longrightarrow> base (unwrapLoop n s opt nul) = s"
proof (induction n arbitrary: opt nul)
  case 0
  show ?case by simp
next
  case (Suc n)
  then show ?case by (cases s) (simp_all add: orElse_def)
qed

lemma unwrapAll_endOfChain: "endOfChain s \<Longrightarrow> base (unwrapAll s) = s"
  by (simp add: unwrapAll_def unwrapLoop_endOfChain)

lemma unwrapLoop_chain:
  "endOfChain s \<Longrightarrow> base (unwrapLoop n (foldr wrapWith ws s) opt nul) = foldr wrapWith (drop n ws) s"
proof (induction n arbitrary: ws opt nul)
  case 0
  then show ?case by simp
next
  case (Suc n)
  show ?case
  proof (cases ws)
    case Nil
    show ?thesis
      unfolding Nil by (simp del: unwrapLoop.simps add: unwrapLoop_endOfChain Suc.prems)
  next
    case (Cons w ws')
    with Suc show ?thesis by (cases w) (simp_all add: orElse_def)
  qed
qed

lemma toBamlType_same_base:
  "base (unwrapAll x) = base (unwrapAll y)
     \<Longrightarrow> toBamlType dbg x ctx con hintName = toBamlType dbg y ctx con hintName"
  by (simp add: toBamlType.simps [of _ x] toBamlType.simps [of _ y])

lemma toBamlType_wrapper_base:
  "base (unwrapAll x) = wrapWith w c
     \<Longrightarrow> toBamlType dbg x ctx con hintName = toBamlType dbg c ctx con hintName"
  by (cases w) (simp_all add: toBamlType.simps [of _ x])

lemma toBamlType_dead_end:
  "isWrapper s \<Longrightarrow> endOfChain s
     \<Longrightarrow> toBamlType dbg s ctx con hintName = Inl (Error (''Unsupported Zod type: '' @ getKind s))"
  by (subst toBamlType.simps) (cases s; simp add: unwrapAll_endOfChain Let_def)

text \<open>
  C4, as amended. \<^verbatim>\<open>unwrapAll\<close> does not fail: of a chain of wrappers around a node it
  peels the first fifty and returns the rest. The translator goes on with the rest
  through its default branch, so a chain of any depth translates as the node at its end
  does; the translation fails on account of the wrappers only when the chain ends in a
  wrapper without inner node, and then, at any depth, with \<^verbatim>\<open>Unsupported Zod type\<close>.
\<close>

theorem wrappers_of_any_depth:
  assumes "endOfChain node"
  shows "base (unwrapAll (foldr wrapWith ws node)) = foldr wrapWith (drop 50 ws) node
       \<and> toBamlType dbg (foldr wrapWith ws node) ctx con hintName
           = toBamlType dbg node ctx con hintName
       \<and> (isWrapper node \<longrightarrow>
            toBamlType dbg (foldr wrapWith ws node) ctx con hintName
              = Inl (Error (''Unsupported Zod type: '' @ getKind node)))"
proof -
  have b: "base (unwrapAll (foldr wrapWith ws node)) = foldr wrapWith (drop 50 ws) node" for ws
    using assms by (simp add: unwrapAll_def unwrapLoop_chain)
  have t: "toBamlType dbg (foldr wrapWith ws node) ctx con hintName
         = toBamlType dbg node ctx con hintName"
  proof (induction "length ws" arbitrary: ws rule: less_induct)
    case less
    show ?case
    proof (cases "drop 50 ws")
      case Nil
      then have "base (unwrapAll (foldr wrapWith ws node)) = base (unwrapAll node)"
        using b [of ws] b [of "[]"] by simp
      then show ?thesis by (rule toBamlType_same_base)
    next
      case (Cons w ws')
      then have "length ws' < length ws"
      proof -
        have "length (drop 50 ws) = Suc (length ws')"
          by (simp add: Cons)
        then show ?thesis by simp
      qed
      then have "toBamlType dbg (foldr wrapWith ws' node) ctx con hintName
             = toBamlType dbg node ctx con hintName"
        by (rule less)
      moreover have "base (unwrapAll (foldr wrapWith ws node)) = wrapWith w (foldr wrapWith ws' node)"
        using b [of ws] Cons by simp
      ultimately show ?thesis
        by (simp add: toBamlType_wrapper_base)
    qed
  qed
  show ?thesis
    using b [of ws] t assms by (simp add: toBamlType_dead_end)
qed

text \<open>Fifty-one Optional wrappers, around a string and around an Optional without inner node.\<close>

theorem wrappers_of_any_depth_witness:
  "endOfChain ZodString
   \<and> base (unwrapAll (foldr wrapWith (replicate 51 WOptional) ZodString)) = ZodOptional (Some ZodString)
   \<and> toBamlType False (foldr wrapWith (replicate 51 WOptional) ZodString) emptyCtx [] (Some ''Root'')
       = Inr (''string'', emptyCtx, [])
   \<and> endOfChain (ZodOptional None) \<and> isWrapper (ZodOptional None)
   \<and> toBamlType False (foldr wrapWith (replicate 51 WOptional) (ZodOptional None)) emptyCtx []
        (Some ''Root'')
       = Inl (Error ''Unsupported Zod type: ZodOptional'')"
proof -
  have s: "toBamlType False ZodString emptyCtx [] (Some ''Root'') = Inr (''string'', emptyCtx, [])"
    by (simp add: toBamlType.simps unwrapAll_plain)
  have d: "drop 50 (replicate 51 WOptional) = [WOptional]"
    by code_simp
  show ?thesis
    using wrappers_of_any_depth [of ZodString "replicate 51 WOptional" False emptyCtx "[]" "Some ''Root''"]
      wrappers_of_any_depth [of "ZodOptional None" "replicate 51 WOptional" False emptyCtx "[]" "Some ''Root''"]
      s d
    by (auto simp del: foldr_replicate)
qed

text \<open>
  C4, as the specification states it, fails for a string under fifty-one Optional
  wrappers: the depth exceeds the bound and the translation succeeds.
\<close>

theorem deep_chain_translates:
  "toBamlType False (((\<lambda>s. ZodOptional (Some s)) ^^ 51) ZodString) emptyCtx [] (Some ''Root'')
     = Inr (''string'', emptyCtx, [])"
  by code_simp

subsection \<open>The retry loop and the empty output\<close>

lemma calls_preludeEvents [simp]: "calls (preludeEvents dbg hash b con) = 0"
  by (simp add: calls_def preludeEvents_def filter_empty_conv)

lemma calls_append [simp]: "calls (xs @ ys) = calls xs + calls ys"
  by (simp add: calls_def)

lemma calls_simps [simp]:
  "calls [] = 0"
  "calls (GenerateText r # xs) = Suc (calls xs)"
  "calls (Sleep n # xs) = calls xs"
  by (simp_all add: calls_def)

lemma generateObjectCompat_prepared:
  assumes "prepared dbg env opts b con client req"
  shows "generateObjectCompat dbg env opts =
     (case retryLoop (generateText env) req 0 (preludeEvents dbg (sha256 env) b con) of
        (Inl x, tr2) \<Rightarrow> (Inl (Thrown x), tr2)
      | (Inr None, tr2) \<Rightarrow>
          (Inl (Failure (TypeError ''Cannot read properties of undefined (reading 'text')'')), tr2)
      | (Inr (Some textRes), tr2) \<Rightarrow>
          (if resultText textRes = []
           then (Inl (Failure (Error ''generateText returned empty text'')), tr2)
           else
             (case client (funcName b) (resultText textRes) of
                Inl x \<Rightarrow> (Inl (Thrown x), tr2 @ [Parse (funcName b) (resultText textRes)])
              | Inr parsed \<Rightarrow>
                  (Inr \<lparr>r_object = parsed, r_text = resultText textRes, r_usage = g_usage textRes,
                        r_finishReason = g_finishReason textRes\<rparr>,
                   tr2 @ [Parse (funcName b) (resultText textRes)]))))"
  using assms
  by (auto simp: prepared_def generateObjectCompat_def Let_def split: prod.splits sum.splits option.splits)

lemma retryLoop_success:
  "i < attempts \<Longrightarrow> gen (calls tr) req = Inr res
     \<Longrightarrow> retryLoop gen req i tr = (Inr (Some res), tr @ [GenerateText req])"
  by (simp add: retryLoop.simps)

lemma retryLoop_retry:
  "Suc i < attempts \<Longrightarrow> gen (calls tr) req = Inl e
     \<Longrightarrow> retryLoop gen req i tr
         = retryLoop gen req (Suc i) (tr @ [GenerateText req, Sleep (250 * (i + 1))])"
  by (subst retryLoop.simps) (simp add: attempts_def)

lemma retryLoop_last_failure:
  "Suc i = attempts \<Longrightarrow> gen (calls tr) req = Inl e
     \<Longrightarrow> retryLoop gen req i tr = (Inl e, tr @ [GenerateText req])"
  by (subst retryLoop.simps) (simp add: attempts_def)

text \<open>
  C2. When the steps before the loop succeed and the text generation service throws at
  its first and at its second call: if its third call returns a result (with a text that
  is not empty, which the parser accepts), the orchestrator returns that result, after
  three calls with delays of 250 and 500 milliseconds between them, that is after exactly
  two retries; if the third call throws too, the orchestrator throws the third error
  itself, after the same three calls and with no fourth.
\<close>

theorem retry_twice_then_return_or_propagate:
  assumes "prepared dbg env opts b con client req"
    and "generateText env 0 req = Inl e1"
    and "generateText env 1 req = Inl e2"
  shows "(\<forall>res parsed.
            generateText env 2 req = Inr res \<longrightarrow> resultText res \<noteq> [] \<longrightarrow>
            client (funcName b) (resultText res) = Inr parsed \<longrightarrow>
            generateObjectCompat dbg env opts
              = (Inr \<lparr>r_object = parsed, r_text = resultText res, r_usage = g_usage res,
                      r_finishReason = g_finishReason res\<rparr>,
                 preludeEvents dbg (sha256 env) b con
                   @ [GenerateText req, Sleep 250, GenerateText req, Sleep 500, GenerateText req,
                      Parse (funcName b) (resultText res)]))
       \<and> (\<forall>e3.
            generateText env 2 req = Inl e3 \<longrightarrow>
            generateObjectCompat dbg env opts
              = (Inl (Thrown e3),
                 preludeEvents dbg (sha256 env) b con
                   @ [GenerateText req, Sleep 250, GenerateText req, Sleep 500, GenerateText req]))"
proof -
  let ?tr = "preludeEvents dbg (sha256 env) b con :: ('a, 'b, 'c) event list"
  let ?gen = "generateText env"
  have c0: "calls ?tr = 0" by simp
  have step1: "retryLoop ?gen req 0 ?tr
      = retryLoop ?gen req (Suc 0) (?tr @ [GenerateText req, Sleep 250])"
    using retryLoop_retry [where i = 0 and gen = ?gen and tr = ?tr and req = req and e = e1] assms(2)
    by (simp add: attempts_def)
  have step2: "retryLoop ?gen req (Suc 0) (?tr @ [GenerateText req, Sleep 250])
      = retryLoop ?gen req (Suc (Suc 0)) (?tr @ [GenerateText req, Sleep 250, GenerateText req, Sleep 500])"
    using retryLoop_retry [where i = "Suc 0" and gen = ?gen
        and tr = "?tr @ [GenerateText req, Sleep 250]" and req = req and e = e2] assms(3)
    by (simp add: attempts_def)
  have ok: "retryLoop ?gen req 0 ?tr
      = (Inr (Some res), ?tr @ [GenerateText req, Sleep 250, GenerateText req, Sleep 500, GenerateText req])"
    if "?gen 2 req = Inr res" for res
    using that retryLoop_success [where i = "Suc (Suc 0)" and gen = ?gen
        and tr = "?tr @ [GenerateText req, Sleep 250, GenerateText req, Sleep 500]" and req = req and res = res]
    by (simp add: step1 step2 attempts_def numeral_2_eq_2)
  have bad: "retryLoop ?gen req 0 ?tr
      = (Inl e3, ?tr @ [GenerateText req, Sleep 250, GenerateText req, Sleep 500, GenerateText req])"
    if "?gen 2 req = Inl e3" for e3
    using that retryLoop_last_failure [where i = "Suc (Suc 0)" and gen = ?gen
        and tr = "?tr @ [GenerateText req, Sleep 250, GenerateText req, Sleep 500]" and req = req and e = e3]
    by (simp add: step1 step2 attempts_def numeral_2_eq_2)
  show ?thesis
    by (auto simp: generateObjectCompat_prepared [OF assms(1)] ok bad)
qed

lemma example_built: "buildBamlFromZod False [] specSchema = Inr (exampleBuilt, [])"
  unfolding exampleBuilt_def by code_simp

lemma example_hint: "buildJsonHint specSchema = Inr (projr (buildJsonHint specSchema))"
  by code_simp

lemma example_prepared:
  "prepared False (failingService k res) exampleOptions exampleBuilt [] echoClient exampleRequest"
  unfolding prepared_def
  apply (rule exI [of _ specSchema])
  apply (rule exI [of _ "projr (buildJsonHint specSchema)"])
  apply (simp add: example_built example_hint [symmetric] exampleRequest_def)
  apply (simp add: exampleOptions_def failingService_def)
  done

text \<open>A service that throws twice and then returns, and one that throws three times.\<close>

theorem retry_twice_then_return_or_propagate_witness:
  "prepared False (failingService 2 someText) exampleOptions exampleBuilt [] echoClient exampleRequest
   \<and> generateText (failingService 2 someText) 0 exampleRequest = Inl ''fault 0''
   \<and> generateText (failingService 2 someText) 1 exampleRequest = Inl ''fault 1''
   \<and> generateText (failingService 2 someText) 2 exampleRequest = Inr someText
   \<and> generateObjectCompat False (failingService 2 someText) exampleOptions
       = (Inr \<lparr>r_object = ''{}'', r_text = ''{}'', r_usage = None, r_finishReason = None\<rparr>,
          preludeEvents False (\<lambda>t. 0) exampleBuilt []
            @ [GenerateText exampleRequest, Sleep 250, GenerateText exampleRequest, Sleep 500,
               GenerateText exampleRequest, Parse ''GenRoot'' ''{}''])
   \<and> prepared False (failingService 3 someText) exampleOptions exampleBuilt [] echoClient exampleRequest
   \<and> generateText (failingService 3 someText) 0 exampleRequest = Inl ''fault 0''
   \<and> generateText (failingService 3 someText) 1 exampleRequest = Inl ''fault 1''
   \<and> generateText (failingService 3 someText) 2 exampleRequest = Inl ''fault 2''
   \<and> generateObjectCompat False (failingService 3 someText) exampleOptions
       = (Inl (Thrown ''fault 2''),
          preludeEvents False (\<lambda>t. 0) exampleBuilt []
            @ [GenerateText exampleRequest, Sleep 250, GenerateText exampleRequest, Sleep 500,
               GenerateText exampleRequest])"
proof -
  have d: "dec 0 = ''0''" "dec 1 = ''1''" "dec (Suc 0) = ''1''" "dec 2 = ''2''"
    by code_simp+
  have g0: "generateText (failingService k someText) 0 exampleRequest = Inl ''fault 0''"
    if "0 < k" for k
    using that unfolding failingService_def by (simp add: d)
  have g1: "generateText (failingService k someText) 1 exampleRequest = Inl ''fault 1''"
    if "1 < k" for k
    using that unfolding failingService_def by (simp add: d)
  have g2: "generateText (failingService 3 someText) 2 exampleRequest = Inl ''fault 2''"
    unfolding failingService_def by (simp add: d)
  have g2': "generateText (failingService 2 someText) 2 exampleRequest = Inr someText"
    unfolding failingService_def by simp
  have s: "sha256 (failingService k res) = (\<lambda>t. 0)" for k res
    by (simp add: failingService_def)
  have f: "funcName exampleBuilt = ''GenRoot''"
    unfolding exampleBuilt_def by code_simp
  have t: "resultText someText = ''{}''"
    by (simp add: resultText_def someText_def)
  have ne: "resultText someText \<noteq> []"
    by (simp add: t)
  have pc: "echoClient (funcName exampleBuilt) (resultText someText) = Inr ''{}''"
    by (simp add: echoClient_def t)
  have p: "0 < (2::nat)" "1 < (2::nat)" "0 < (3::nat)" "1 < (3::nat)"
    by simp_all
  note ok = retry_twice_then_return_or_propagate
      [OF example_prepared [of 2 someText] g0 [OF p(1)] g1 [OF p(2)], THEN conjunct1, rule_format,
       OF g2' ne pc]
  note bad = retry_twice_then_return_or_propagate
      [OF example_prepared [of 3 someText] g0 [OF p(3)] g1 [OF p(4)], THEN conjunct2, rule_format,
       OF g2]
  have a: "generateObjectCompat False (failingService 2 someText) exampleOptions
       = (Inr \<lparr>r_object = ''{}'', r_text = ''{}'', r_usage = None, r_finishReason = None\<rparr>,
          preludeEvents False (\<lambda>t. 0) exampleBuilt []
            @ [GenerateText exampleRequest, Sleep 250, GenerateText exampleRequest, Sleep 500,
               GenerateText exampleRequest, Parse ''GenRoot'' ''{}''])"
    using ok by (simp add: s f t) (simp add: someText_def)
  have b: "generateObjectCompat False (failingService 3 someText) exampleOptions
       = (Inl (Thrown ''fault 2''),
          preludeEvents False (\<lambda>t. 0) exampleBuilt []
            @ [GenerateText exampleRequest, Sleep 250, GenerateText exampleRequest, Sleep 500,
               GenerateText exampleRequest])"
    using bad by (simp add: s)
  show ?thesis
    using a b g0 [OF p(1)] g1 [OF p(2)] g0 [OF p(3)] g1 [OF p(4)] g2 g2'
    by (simp add: example_prepared)
qed

lemma failedAttempts_0 [simp]: "failedAttempts req i 0 = []"
  by (simp add: failedAttempts_def)

lemma failedAttempts_Suc:
  "failedAttempts req i (Suc k) = [GenerateText req, Sleep (250 * (i + 1))] @ failedAttempts req (Suc i) k"
  by (simp add: failedAttempts_def upt_conv_Cons)

lemma calls_failedAttempts [simp]: "calls (failedAttempts req i k) = k"
  by (induction k arbitrary: i) (simp_all add: failedAttempts_Suc)

lemma no_parse_failedAttempts [simp]: "\<not> list_ex isParse (failedAttempts req i k)"
  by (induction k arbitrary: i) (simp_all add: failedAttempts_Suc isParse_def)

lemma no_parse_preludeEvents [simp]: "\<not> list_ex isParse (preludeEvents dbg hash b con)"
  by (auto simp: preludeEvents_def isParse_def list_ex_iff)

lemma retryLoop_failed_attempts:
  "i + k < attempts \<Longrightarrow> \<forall>j<k. \<exists>e. gen (calls tr + j) req = Inl e
     \<Longrightarrow> retryLoop gen req i tr = retryLoop gen req (i + k) (tr @ failedAttempts req i k)"
proof (induction k arbitrary: i tr)
  case 0
  then show ?case by simp
next
  case (Suc k)
  from Suc.prems(2) obtain e where e: "gen (calls tr) req = Inl e"
    by fastforce
  let ?tr = "tr @ [GenerateText req, Sleep (250 * (i + 1))]"
  have "retryLoop gen req i tr = retryLoop gen req (Suc i) ?tr"
    using Suc.prems(1) e by (intro retryLoop_retry) simp_all
  also have "\<dots> = retryLoop gen req (Suc i + k) (?tr @ failedAttempts req (Suc i) k)"
  proof (rule Suc.IH)
    show "Suc i + k < attempts" using Suc.prems(1) by simp
    show "\<forall>j<k. \<exists>e. gen (calls ?tr + j) req = Inl e"
      using Suc.prems(2) by (auto dest: spec [of _ "Suc j" for j])
  qed
  finally show ?case
    by (simp add: failedAttempts_Suc)
qed

text \<open>
  C3. When the steps before the loop succeed, the text generation service throws at its
  first \<open>k\<close> calls (fewer than three) and its next call returns a result in which both
  \<^verbatim>\<open>text\<close> and \<^verbatim>\<open>output_text\<close> are absent or empty, the orchestrator fails with the
  empty-output error; the successful call is its last event, so the service is called
  \<open>k + 1\<close> times and not again, and the parser is not called.
\<close>

theorem empty_output_fails_at_once:
  assumes "prepared dbg env opts b con client req"
    and "k < attempts"
    and "\<forall>j<k. \<exists>e. generateText env j req = Inl e"
    and "generateText env k req = Inr res"
    and "g_text res = None \<or> g_text res = Some []"
    and "g_output_text res = None \<or> g_output_text res = Some []"
  shows "generateObjectCompat dbg env opts
           = (Inl (Failure (Error ''generateText returned empty text'')),
              preludeEvents dbg (sha256 env) b con @ failedAttempts req 0 k @ [GenerateText req])
         \<and> calls (snd (generateObjectCompat dbg env opts)) = Suc k
         \<and> \<not> list_ex isParse (snd (generateObjectCompat dbg env opts))"
proof -
  let ?tr = "preludeEvents dbg (sha256 env) b con :: ('a, 'b, 'c) event list"
  let ?gen = "generateText env"
  have "retryLoop ?gen req 0 ?tr = retryLoop ?gen req (0 + k) (?tr @ failedAttempts req 0 k)"
    using assms(2,3) by (intro retryLoop_failed_attempts) simp_all
  also have "\<dots> = (Inr (Some res), (?tr @ failedAttempts req 0 k) @ [GenerateText req])"
    using assms(2,4) by (intro retryLoop_success) simp_all
  finally have loop: "retryLoop ?gen req 0 ?tr
      = (Inr (Some res), ?tr @ failedAttempts req 0 k @ [GenerateText req])"
    by simp
  have empty: "resultText res = []"
    using assms(5,6) by (auto simp: resultText_def)
  have run: "generateObjectCompat dbg env opts
           = (Inl (Failure (Error ''generateText returned empty text'')),
              ?tr @ failedAttempts req 0 k @ [GenerateText req])"
    by (simp add: generateObjectCompat_prepared [OF assms(1)] loop empty)
  show ?thesis
    by (simp add: run isParse_def)
qed

text \<open>A service that throws once and then returns the empty text.\<close>

theorem empty_output_fails_at_once_witness:
  "prepared False (failingService 1 noText) exampleOptions exampleBuilt [] echoClient exampleRequest
   \<and> 1 < attempts
   \<and> generateText (failingService 1 noText) 0 exampleRequest = Inl ''fault 0''
   \<and> generateText (failingService 1 noText) 1 exampleRequest = Inr noText
   \<and> (g_text noText = None \<or> g_text noText = Some [])
   \<and> (g_output_text noText = None \<or> g_output_text noText = Some [])
   \<and> generateObjectCompat False (failingService 1 noText) exampleOptions
       = (Inl (Failure (Error ''generateText returned empty text'')),
          preludeEvents False (\<lambda>t. 0) exampleBuilt []
            @ [GenerateText exampleRequest, Sleep 250, GenerateText exampleRequest])"
proof -
  have a: "1 < attempts" by (simp add: attempts_def)
  have f: "\<forall>j<1. \<exists>e. generateText (failingService 1 noText) j exampleRequest = Inl e"
    by (simp add: failingService_def)
  have g: "generateText (failingService 1 noText) 1 exampleRequest = Inr noText"
    by (simp add: failingService_def)
  have t: "g_text noText = None \<or> g_text noText = Some []"
    and u: "g_output_text noText = None \<or> g_output_text noText = Some []"
    by (simp_all add: noText_def)
  have s: "sha256 (failingService k noText) = (\<lambda>t. 0)" for k
    by (simp add: failingService_def)
  have fa: "failedAttempts exampleRequest 0 (Suc 0) = [GenerateText exampleRequest, Sleep 250]"
    by (simp add: failedAttempts_def)
  have g0: "generateText (failingService 1 noText) 0 exampleRequest = Inl ''fault 0''"
    unfolding failingService_def by (simp add: dec.simps [of 0] digit_def) code_simp
  show ?thesis
    using empty_output_fails_at_once [OF example_prepared a f g t u] a g g0 t u
    by (simp add: s fa example_prepared)
qed

subsection \<open>The hint for a BigInt literal\<close>

text \<open>
  C9. \<^verbatim>\<open>describeSchema\<close> is not total: for the literal of a BigInt (\<^verbatim>\<open>z.literal(2n)\<close>)
  \<^verbatim>\<open>JSON.stringify\<close> throws, although \<^verbatim>\<open>toBamlType\<close> translates the same literal to
  \<^verbatim>\<open>string\<close>; and for the literal \<^verbatim>\<open>undefined\<close> it returns \<^verbatim>\<open>undefined\<close>, not a string. So
  for an object with a BigInt field the translation succeeds and the orchestrator fails
  when it builds the hint, before any call of the text generation service; and with a
  field of an unsupported kind beside it, both the translation and the hint fail.
\<close>

theorem bigint_literal_breaks_hint:
  "toBamlType dbg (ZodLiteral LitBigInt) ctx con hintName = Inr (''string'', ctx, con)
   \<and> describeSchema (ZodLiteral LitBigInt)
       = Inl (TypeError ''Do not know how to serialize a BigInt'')
   \<and> describeSchema (ZodLiteral LitUndefined) = Inr None
   \<and> map_sum id (rootType \<circ> fst)
         (buildBamlFromZod False [] (ZodObject [(''n'', ZodLiteral LitBigInt, None)]))
       = Inr ''Root''
   \<and> fst (generateObjectCompat False (failingService 0 someText) bigintOptions)
       = Inl (Failure (TypeError ''Do not know how to serialize a BigInt''))
   \<and> calls (snd (generateObjectCompat False (failingService 0 someText) bigintOptions)) = 0
   \<and> toBamlType False
         (ZodObject [(''n'', ZodLiteral LitBigInt, None), (''x'', ZodOther ''ZodAny'' None, None)])
         emptyCtx [] (Some ''Root'')
       = Inl (Error ''Unsupported Zod type: ZodAny'')
   \<and> buildJsonHint
         (ZodObject [(''n'', ZodLiteral LitBigInt, None), (''x'', ZodOther ''ZodAny'' None, None)])
       = Inl (TypeError ''Do not know how to serialize a BigInt'')"
proof -
  have "toBamlType dbg (ZodLiteral LitBigInt) ctx con hintName = Inr (''string'', ctx, con)"
    by (simp add: toBamlType.simps unwrapAll_plain)
  moreover have "describeSchema (ZodLiteral LitBigInt)
       = Inl (TypeError ''Do not know how to serialize a BigInt'')"
    by code_simp
  moreover have "describeSchema (ZodLiteral LitUndefined) = Inr None"
    by code_simp
  moreover have "map_sum id (rootType \<circ> fst)
         (buildBamlFromZod False [] (ZodObject [(''n'', ZodLiteral LitBigInt, None)]))
       = Inr ''Root''"
    by code_simp
  moreover have "fst (generateObjectCompat False (failingService 0 someText) bigintOptions)
       = Inl (Failure (TypeError ''Do not know how to serialize a BigInt''))"
    by code_simp
  moreover have "calls (snd (generateObjectCompat False (failingService 0 someText) bigintOptions)) = 0"
    by code_simp
  moreover have "toBamlType False
         (ZodObject [(''n'', ZodLiteral LitBigInt, None), (''x'', ZodOther ''ZodAny'' None, None)])
         emptyCtx [] (Some ''Root'')
       = Inl (Error ''Unsupported Zod type: ZodAny'')"
    by code_simp
  moreover have "buildJsonHint
         (ZodObject [(''n'', ZodLiteral LitBigInt, None), (''x'', ZodOther ''ZodAny'' None, None)])
       = Inl (TypeError ''Do not know how to serialize a BigInt'')"
    by code_simp
  ultimately show ?thesis by simp
qed

end
